theory Spec2Isabelle
  imports Complex_Main
begin

section \<open>Python floats\<close>

text \<open>
  Scores are Python floats, that is IEEE 754 binary64 numbers. A finite double is a
  rational number, so \<open>double\<close> is \<open>rat\<close>, and every literal and every arithmetic
  operation of the source is followed by the rounding \<open>fl\<close> to the nearest double, ties
  to even, as the hardware does it. The engine's scores stay below 2, far from overflow,
  which \<open>fl\<close> leaves out. The rounding matters: \<open>0.4 + 0.2\<close> is the double
  \<open>0.6000000000000001\<close>, one unit in the last place above the double \<open>0.6\<close>.
\<close>

type_synonym double = rat

function bit_length :: "int \<Rightarrow> int" where
  "bit_length n = (if n \<le> 0 then 0 else 1 + bit_length (n div 2))"
  by pat_completeness auto
termination
  by (relation "measure nat") auto

declare bit_length.simps [simp del]

text \<open>\<open>floor_log2_frac p q\<close> is the \<open>e\<close> with \<open>2 ^ e \<le> p / q < 2 ^ (e + 1)\<close>, for positive
  \<open>p\<close> and \<open>q\<close>.\<close>

definition floor_log2_frac :: "int \<Rightarrow> int \<Rightarrow> int" where
  "floor_log2_frac p q =
     (let d = bit_length p - bit_length q
      in if (if 0 \<le> d then q * 2 ^ nat d \<le> p else q \<le> p * 2 ^ nat (- d)) then d else d - 1)"

definition pow2 :: "int \<Rightarrow> rat" where
  "pow2 e = (if 0 \<le> e then 2 ^ nat e else 1 / 2 ^ nat (- e))"

text \<open>The integer nearest to \<open>n / d\<close> (\<open>d\<close> positive), a tie going to the even one.\<close>

definition round_half_even_frac :: "int \<Rightarrow> int \<Rightarrow> int" where
  "round_half_even_frac n d =
     (let f = n div d; r = n mod d
      in if 2 * r < d then f else if d < 2 * r then f + 1 else if even f then f else f + 1)"

text \<open>The double nearest to \<open>p / q\<close>: 53 significant bits, the exponent not below that of
  the subnormal numbers.\<close>

definition fl_frac :: "int \<Rightarrow> int \<Rightarrow> rat" where
  "fl_frac p q =
     (let e = max (floor_log2_frac p q) (- 1022) - 52;
          m = (if e \<le> 0 then round_half_even_frac (p * 2 ^ nat (- e)) q
               else round_half_even_frac p (q * 2 ^ nat e))
      in of_int m * pow2 e)"

definition fl :: "rat \<Rightarrow> double" where
  "fl x =
     (if x = 0 then 0
      else case quotient_of \<bar>x\<bar> of (p, q) \<Rightarrow>
             if x < 0 then - fl_frac p q else fl_frac p q)"

text \<open>A decimal literal of the source: \<open>decimal 95 100\<close> is \<open>0.95\<close>, the double nearest
  to \<open>95 / 100\<close>.\<close>

definition decimal :: "int \<Rightarrow> int \<Rightarrow> double" where
  "decimal m d = fl (of_int m / of_int d)"

definition fadd :: "double \<Rightarrow> double \<Rightarrow> double" where
  "fadd x y = fl (x + y)"

definition fmul :: "double \<Rightarrow> double \<Rightarrow> double" where
  "fmul x y = fl (x * y)"

text \<open>\<open>round(x, 2)\<close>: the exact value of \<open>x\<close> is rounded to two decimals, ties to even,
  and the decimal is converted back to the nearest double.\<close>

definition round2 :: "double \<Rightarrow> double" where
  "round2 x = (case quotient_of (x * 100) of (n, d) \<Rightarrow> fl (of_int (round_half_even_frac n d) / 100))"

text \<open>\<open>repr\<close> of a non-negative double that \<open>round(_, 2)\<close> returned, as the f-string of
  the rejection reason prints it: the shortest decimal that reads back as the same
  double, which for the nearest double to \<open>k / 100\<close> is \<open>k / 100\<close> written without a
  trailing zero, and with one fraction digit at least.\<close>

definition digit_char :: "nat \<Rightarrow> char" where
  "digit_char n = char_of (48 + n)"

function nat_str :: "nat \<Rightarrow> string" where
  "nat_str n = (if n < 10 then [digit_char n] else nat_str (n div 10) @ [digit_char (n mod 10)])"
  by pat_completeness auto
termination
  by (relation "measure id") auto

declare nat_str.simps [simp del]

definition float_repr :: "double \<Rightarrow> string" where
  "float_repr x =
     (case quotient_of (x * 100) of (n, d) \<Rightarrow>
        let k = nat (round_half_even_frac n d); f = k mod 100
        in nat_str (k div 100) @ ''.'' @
           (if f mod 10 = 0 then [digit_char (f div 10)]
            else [digit_char (f div 10), digit_char (f mod 10)]))"

section \<open>Text, characters and Python's regular expressions\<close>

text \<open>
  The OCR text is a Python \<open>str\<close>. It is modelled as a \<open>string\<close> with one \<open>char\<close> per code
  point, which covers every text whose code points are below 256. \<open>code\<close> reads the code
  point of a character.
\<close>

definition code :: "char \<Rightarrow> int" where
  "code c = of_char c"

text \<open>\<open>str.lower()\<close> on code points below 256: A-Z and the capital letters of Latin-1
  (192..222 without the multiplication sign 215) move up by 32.\<close>

definition lower_char :: "char \<Rightarrow> char" where
  "lower_char c =
     (let n = code c
      in if (65 \<le> n \<and> n \<le> 90) \<or> (192 \<le> n \<and> n \<le> 222 \<and> n \<noteq> 215) then char_of (n + 32) else c)"

text \<open>The upper-case variant, used only to test a range under \<open>re.IGNORECASE\<close>; the two
  small letters of Latin-1 whose capital lies beyond code point 255 stay as they are.\<close>

definition upper_char :: "char \<Rightarrow> char" where
  "upper_char c =
     (let n = code c
      in if (97 \<le> n \<and> n \<le> 122) \<or> (224 \<le> n \<and> n \<le> 254 \<and> n \<noteq> 247) then char_of (n - 32) else c)"

definition lower :: "string \<Rightarrow> string" where
  "lower s = map lower_char s"

text \<open>The class \<open>\s\<close> of a \<open>str\<close> pattern: the characters for which \<open>str.isspace\<close> holds.\<close>

definition is_space :: "char \<Rightarrow> bool" where
  "is_space c =
     (let n = code c
      in (9 \<le> n \<and> n \<le> 13) \<or> (28 \<le> n \<and> n \<le> 32) \<or> n = 133 \<or> n = 160)"

text \<open>
  The patterns of both services use literal characters, character classes, \<open>\s\<close>, the
  quantifiers \<open>?\<close>, \<open>*\<close>, \<open>{m}\<close> and \<open>{m,n}\<close> on a single class, concatenation and
  alternation. \<open>regex\<close> is that syntax.
\<close>

datatype atom = Chr char | Range char char | Space

datatype regex =
    Eps
  | One "atom list"
  | Rep "atom list" nat nat
  | Star "atom list"
  | Seq regex regex
  | Alt regex regex

text \<open>\<open>ic\<close> is the flag \<open>re.IGNORECASE\<close>: a literal matches in either case, a range
  matches when a case variant of the character lies in it.\<close>

fun atom_match :: "bool \<Rightarrow> atom \<Rightarrow> char \<Rightarrow> bool" where
  "atom_match ic (Chr c) x = (if ic then lower_char x = lower_char c else x = c)"
| "atom_match ic (Range lo hi) x =
     (if ic
      then (code lo \<le> code (lower_char x) \<and> code (lower_char x) \<le> code hi)
         \<or> (code lo \<le> code (upper_char x) \<and> code (upper_char x) \<le> code hi)
      else code lo \<le> code x \<and> code x \<le> code hi)"
| "atom_match ic Space x = is_space x"

definition class_match :: "bool \<Rightarrow> atom list \<Rightarrow> char \<Rightarrow> bool" where
  "class_match ic as x = list_ex (\<lambda>a. atom_match ic a x) as"

text \<open>
  \<open>rmatch ic r s\<close> lists what is left of \<open>s\<close> after each way of matching \<open>r\<close> at its
  start, in the order in which Python's backtracking matcher tries them: a greedy
  quantifier takes the longest run first, an alternation its left branch first.
\<close>

definition greedy :: "bool \<Rightarrow> atom list \<Rightarrow> nat \<Rightarrow> nat \<Rightarrow> string \<Rightarrow> string list" where
  "greedy ic as m n s =
     (let k = min n (length (takeWhile (class_match ic as) s))
      in if k < m then [] else map (\<lambda>i. drop i s) (rev [m..<Suc k]))"

fun rmatch :: "bool \<Rightarrow> regex \<Rightarrow> string \<Rightarrow> string list" where
  "rmatch ic Eps s = [s]"
| "rmatch ic (One as) s = greedy ic as 1 1 s"
| "rmatch ic (Rep as m n) s = greedy ic as m n s"
| "rmatch ic (Star as) s = greedy ic as 0 (length s) s"
| "rmatch ic (Seq r1 r2) s = concat (map (rmatch ic r2) (rmatch ic r1 s))"
| "rmatch ic (Alt r1 r2) s = rmatch ic r1 s @ rmatch ic r2 s"

text \<open>\<open>re.search\<close>: the first position, from the left, at which the pattern matches;
  the value is \<open>match.group(0)\<close>, the text matched there, or \<open>None\<close>.\<close>

fun re_search :: "bool \<Rightarrow> regex \<Rightarrow> string \<Rightarrow> string option" where
  "re_search ic r [] = (case rmatch ic r [] of [] \<Rightarrow> None | rest # _ \<Rightarrow> Some [])"
| "re_search ic r (x # xs) =
     (case rmatch ic r (x # xs) of
        [] \<Rightarrow> re_search ic r xs
      | rest # _ \<Rightarrow> Some (take (length (x # xs) - length rest) (x # xs)))"

definition found :: "regex \<Rightarrow> string \<Rightarrow> bool" where
  "found r s = (re_search False r s \<noteq> None)"

text \<open>Pattern notation: a literal string, \<open>\s*\<close>, \<open>\s?\<close>, the classes used, and a
  sequence of parts.\<close>

fun lit :: "string \<Rightarrow> regex" where
  "lit [] = Eps"
| "lit [c] = One [Chr c]"
| "lit (c # cs) = Seq (One [Chr c]) (lit cs)"

fun seq :: "regex list \<Rightarrow> regex" where
  "seq [] = Eps"
| "seq [r] = r"
| "seq (r # rs) = Seq r (seq rs)"

definition ws :: regex where
  "ws = Star [Space]"

definition digit :: "atom list" where
  "digit = [Range CHR ''0'' CHR ''9'']"

definition upper_letter :: "atom list" where
  "upper_letter = [Range CHR ''A'' CHR ''Z'']"

fun words :: "string list \<Rightarrow> regex" where
  "words [] = Eps"
| "words [w] = lit w"
| "words (w # rest) = Seq (lit w) (Seq ws (words rest))"

section \<open>Identifier matchers (OCR/app/services/validation\_service.py)\<close>

definition AADHAAR_PATTERN :: regex where
  "AADHAAR_PATTERN =
     seq [Rep digit 4 4, Rep [Space] 0 1, Rep digit 4 4, Rep [Space] 0 1, Rep digit 4 4]"

definition PAN_PATTERN :: regex where
  "PAN_PATTERN = seq [Rep upper_letter 5 5, Rep digit 4 4, One upper_letter]"

definition sep :: "atom list" where
  "sep = [Chr CHR ''-'', Space]"

definition DL_PATTERN :: regex where
  "DL_PATTERN =
     Alt (seq [Alt (lit ''DL'') (Rep upper_letter 2 2), Rep sep 0 1, Rep digit 2 2, Rep sep 0 1,
               Rep digit 4 19])
         (seq [Rep upper_letter 2 2, Rep digit 2 2, Rep digit 4 19])"

datatype DocumentType = AADHAAR | PAN | DRIVING_LICENCE | UNKNOWN

fun doc_value :: "DocumentType \<Rightarrow> string" where
  "doc_value AADHAAR = ''aadhaar''"
| "doc_value PAN = ''pan''"
| "doc_value DRIVING_LICENCE = ''driving_license''"
| "doc_value UNKNOWN = ''unknown''"

definition licen_cs :: regex where
  "licen_cs = Seq (lit ''licen'') (One [Chr CHR ''c'', Chr CHR ''s''])"

fun KEYWORD_PATTERNS :: "DocumentType \<Rightarrow> regex list" where
  "KEYWORD_PATTERNS AADHAAR =
     [lit ''aadhaar'', words [''unique'', ''identification'', ''authority''], lit ''uidai'',
      words [''government'', ''of'', ''india''], words [''mera'', ''aadhaar''],
      lit ''dob'', words [''date'', ''of'', ''birth''], lit ''yob'',
      words [''year'', ''of'', ''birth''], lit ''bale'', lit ''female'', lit ''male'']"
| "KEYWORD_PATTERNS PAN =
     [words [''permanent'', ''account'', ''number''], words [''income'', ''tax'', ''department''],
      words [''govt'', ''of'', ''india''], words [''date'', ''of'', ''birth''],
      words [''father'' @ [CHR 0x27] @ ''s'', ''name'']]"
| "KEYWORD_PATTERNS DRIVING_LICENCE =
     [seq [lit ''driving'', ws, licen_cs, lit ''e''], seq [lit ''driving'', ws, licen_cs],
      words [''union'', ''of'', ''india''], words [''transport'', ''department''],
      words [''valid'', ''till''], words [''issued'', ''on''], words [''motor'', ''vehicle''],
      lit ''transport'', words [''license'', ''to'', ''drive''], words [''license'', ''no''],
      words [''dl'', ''no''], words [''dl'', ''number''], lit ''driving'',
      Seq licen_cs (lit ''e''), words [''vehicle'', ''class''],
      words [''issuing'', ''authority''], lit ''rto'', words [''regional'', ''transport''],
      words [''motor'', ''driving'']]"
| "KEYWORD_PATTERNS UNKNOWN = []"

text \<open>A matcher returns the tuple \<open>(matched, identifier, base confidence)\<close>.\<close>

type_synonym match_result = "bool \<times> string option \<times> double"

definition validate_aadhaar :: "string \<Rightarrow> match_result" where
  "validate_aadhaar text =
     (case re_search False AADHAAR_PATTERN text of
        Some m \<Rightarrow> (True, Some m, 1)
      | None \<Rightarrow> (False, None, 0))"

definition validate_pan :: "string \<Rightarrow> match_result" where
  "validate_pan text =
     (case re_search False PAN_PATTERN text of
        Some m \<Rightarrow> (True, Some m, 1)
      | None \<Rightarrow> (False, None, 0))"

text \<open>\<open>word in text\<close> on strings: \<open>word\<close> occurs as a substring.\<close>

fun contains :: "string \<Rightarrow> string \<Rightarrow> bool" where
  "contains w [] = (w = [])"
| "contains w (x # xs) = (take (length w) (x # xs) = w \<or> contains w xs)"

definition dl_keyword_indicators :: "regex list" where
  "dl_keyword_indicators =
     [seq [lit ''driving'', ws, licen_cs, lit ''e''], seq [lit ''driving'', ws, licen_cs],
      words [''motor'', ''vehicle''], words [''license'', ''to'', ''drive''],
      words [''transport'', ''department''], words [''dl'', ''no''],
      words [''regional'', ''transport''], words [''motor'', ''driving''],
      words [''vehicle'', ''class'']]"

definition dl_context_words :: "string list" where
  "dl_context_words = [''driving'', ''license'', ''licence'', ''transport'', ''vehicle'', ''dl'']"

definition validate_dl :: "string \<Rightarrow> match_result" where
  "validate_dl text =
     (let text_lower = lower text;
          keyword_found = list_ex (\<lambda>pattern. found pattern text_lower) dl_keyword_indicators
      in case re_search True DL_PATTERN text of
           Some dl_number \<Rightarrow>
             if keyword_found then (True, Some dl_number, decimal 95 100)
             else if list_ex (\<lambda>word. contains word text_lower) dl_context_words
             then (True, Some dl_number, decimal 85 100)
             else (True, Some dl_number, decimal 7 10)
         | None \<Rightarrow>
             if keyword_found
                \<and> 2 \<le> length (filter (\<lambda>kw. found kw text_lower) dl_keyword_indicators)
             then (True, None, decimal 6 10)
             else (False, None, 0))"

section \<open>Keyword scorer\<close>

text \<open>The loop of \<open>calculate_scoring\<close>: the number of patterns of the type's list that
  are found in the lower-cased text.\<close>

definition found_keywords :: "string \<Rightarrow> DocumentType \<Rightarrow> nat" where
  "found_keywords text doc_type =
     (let text_lower = lower text
      in length (filter (\<lambda>pattern. found pattern text_lower) (KEYWORD_PATTERNS doc_type)))"

definition calculate_scoring :: "string \<Rightarrow> DocumentType \<Rightarrow> double" where
  "calculate_scoring text doc_type =
     (let score = 0;
          score = (if 1 \<le> found_keywords text doc_type then fadd score (decimal 4 10) else score);
          score = (if 2 \<le> found_keywords text doc_type then fadd score (decimal 2 10) else score)
      in score)"

section \<open>Schemas and configuration\<close>

datatype VerificationStatus = VERIFIED | REJECTED

record VerificationResponse =
  status :: VerificationStatus
  detected_document_type :: DocumentType
  confidence_score :: double
  failure_reason :: "string option"
  extracted_fields :: "string \<rightharpoonup> string"
  raw_ocr_text :: "string option"

text \<open>The schema declares \<open>confidence_score\<close> with \<open>ge=0.0, le=1.0\<close>: constructing a
  response with a score outside that range raises a validation error.\<close>

datatype error = ValidationError

definition new_response ::
  "VerificationStatus \<Rightarrow> DocumentType \<Rightarrow> double \<Rightarrow> string option \<Rightarrow> (string \<rightharpoonup> string)
     \<Rightarrow> string option \<Rightarrow> error + VerificationResponse" where
  "new_response stat dtype score reason extracted raw_text =
     (if 0 \<le> score \<and> score \<le> 1
      then Inr \<lparr>status = stat, detected_document_type = dtype, confidence_score = score,
                failure_reason = reason, extracted_fields = extracted, raw_ocr_text = raw_text\<rparr>
      else Inl ValidationError)"

record Settings =
  CONFIDENCE_THRESHOLD_HIGH :: double
  CONFIDENCE_THRESHOLD_LOW :: double

text \<open>The defaults of \<open>Settings\<close>; an environment variable or the \<open>.env\<close> file can
  replace either.\<close>

definition settings :: Settings where
  "settings = \<lparr>CONFIDENCE_THRESHOLD_HIGH = decimal 85 100, CONFIDENCE_THRESHOLD_LOW = decimal 60 100\<rparr>"

section \<open>Classification engine (OCR/app/services/classification\_service.py)\<close>

text \<open>
  \<open>classify_and_verify\<close> is split at the comments of its body: the candidate list
  (lines 14 to 29), the choice among the candidates (31 to 46), the keyword fallback
  (48 to 61), the final score (63 to 75) and the decision and the response (77 to 102).
  The local variables \<open>detected_type\<close>, \<open>id_number\<close> and \<open>base_confidence\<close> travel as a
  triple.
\<close>

type_synonym candidate = "DocumentType \<times> string option \<times> double"

definition candidates :: "string \<Rightarrow> candidate list" where
  "candidates text =
     (case validate_aadhaar text of (is_aadhaar, aadhaar_no, aadhaar_score) \<Rightarrow>
      case validate_pan text of (is_pan, pan_no, pan_score) \<Rightarrow>
      case validate_dl text of (is_dl, dl_no, dl_score) \<Rightarrow>
        (if is_aadhaar then [(AADHAAR, aadhaar_no, aadhaar_score)] else [])
        @ (if is_pan then [(PAN, pan_no, pan_score)] else [])
        @ (if is_dl then [(DRIVING_LICENCE, dl_no, dl_score)] else []))"

text \<open>\<open>max(items, key=...)\<close> on a list with first item \<open>best\<close>: a later item replaces
  the best one only when its key is strictly greater.\<close>

fun max_key :: "('a \<Rightarrow> double) \<Rightarrow> 'a \<Rightarrow> 'a list \<Rightarrow> 'a" where
  "max_key key best [] = best"
| "max_key key best (x # xs) = max_key key (if key best < key x then x else best) xs"

definition total_score :: "string \<Rightarrow> candidate \<Rightarrow> double" where
  "total_score text c =
     (case c of (doc_type, number, base_score) \<Rightarrow>
        fadd (fmul base_score (decimal 6 10)) (fmul (calculate_scoring text doc_type) (decimal 4 10)))"

definition scored :: "string \<Rightarrow> candidate \<Rightarrow> DocumentType \<times> string option \<times> double \<times> double" where
  "scored text c =
     (case c of (doc_type, number, base_score) \<Rightarrow> (doc_type, number, base_score, total_score text c))"

definition select :: "string \<Rightarrow> candidate" where
  "select text =
     (case candidates text of
        [] \<Rightarrow> (UNKNOWN, None, 0)
      | [c] \<Rightarrow> c
      | c # cs \<Rightarrow>
          (case max_key (\<lambda>x. snd (snd (snd x))) (scored text c) (map (scored text) cs) of
             (doc_type, number, base_score, total_sc) \<Rightarrow> (doc_type, number, base_score)))"

definition keyword_fallback :: "string \<Rightarrow> candidate \<Rightarrow> candidate" where
  "keyword_fallback text c =
     (case c of (detected_type, id_number, base_confidence) \<Rightarrow>
        if detected_type = UNKNOWN
        then (case max_key snd (AADHAAR, calculate_scoring text AADHAAR)
                     [(PAN, calculate_scoring text PAN),
                      (DRIVING_LICENCE, calculate_scoring text DRIVING_LICENCE)] of
                (best_type, best_kw_score) \<Rightarrow>
                  if 0 < best_kw_score then (best_type, id_number, 0)
                  else (detected_type, id_number, base_confidence))
        else (detected_type, id_number, base_confidence))"

definition detect :: "string \<Rightarrow> candidate" where
  "detect text = keyword_fallback text (select text)"

text \<open>Lines 67 to 75, as a function of \<open>base_confidence\<close> and \<open>keyword_score\<close>.\<close>

definition blend_value :: "double \<Rightarrow> double \<Rightarrow> double" where
  "blend_value base_confidence keyword_score =
     (let final_score = fadd (fmul base_confidence (decimal 6 10)) keyword_score;
          final_score = (if decimal 8 10 \<le> base_confidence \<and> 0 < keyword_score
                         then min (fadd final_score (decimal 2 10)) (decimal 99 100)
                         else final_score)
      in min final_score (decimal 99 100))"

definition blend :: "string \<Rightarrow> DocumentType \<Rightarrow> double \<Rightarrow> double" where
  "blend text detected_type base_confidence =
     (if detected_type \<noteq> UNKNOWN
      then blend_value base_confidence (calculate_scoring text detected_type)
      else 0)"

definition final_score :: "string \<Rightarrow> double" where
  "final_score text = (case detect text of (detected_type, id_number, base_confidence) \<Rightarrow>
     blend text detected_type base_confidence)"

definition unknown_reason :: string where
  "unknown_reason = ''Could not identify document type. No supported ID keywords or patterns found.''"

definition too_low_reason :: "double \<Rightarrow> DocumentType \<Rightarrow> string" where
  "too_low_reason score detected_type =
     ''Confidence score ('' @ float_repr (round2 score) @ '') too low for ''
       @ doc_value detected_type @ ''. Validation failed.''"

definition decide :: "Settings \<Rightarrow> DocumentType \<Rightarrow> double \<Rightarrow> VerificationStatus \<times> string option" where
  "decide cfg detected_type score =
     (if detected_type = UNKNOWN then (REJECTED, Some unknown_reason)
      else if CONFIDENCE_THRESHOLD_HIGH cfg \<le> score then (VERIFIED, None)
      else if CONFIDENCE_THRESHOLD_LOW cfg \<le> score then (VERIFIED, None)
      else (REJECTED, Some (too_low_reason score detected_type)))"

definition fields_of :: "string option \<Rightarrow> (string \<rightharpoonup> string)" where
  "fields_of id_number =
     (case id_number of
        Some n \<Rightarrow> if n \<noteq> [] then [''id_number'' \<mapsto> n] else Map.empty
      | None \<Rightarrow> Map.empty)"

definition classify_and_verify :: "Settings \<Rightarrow> string \<Rightarrow> error + VerificationResponse" where
  "classify_and_verify cfg text =
     (case detect text of (detected_type, id_number, base_confidence) \<Rightarrow>
        let score = blend text detected_type base_confidence
        in case decide cfg detected_type score of (st, reason) \<Rightarrow>
             new_response st detected_type (round2 score) reason (fields_of id_number) (Some text))"

section \<open>The second copy of the engine (services/ocr-service)\<close>

text \<open>
  The copy under \<open>services/ocr-service\<close> has its own licence pattern, its own licence
  keywords and its own licence matcher, and tries the matchers one after the other,
  stopping at the first that fires. Its Aadhaar and PAN patterns, matchers and keyword
  lists and its scorer are the same text as those above. Its \<open>app.core.config\<close> is not
  among the sources: the settings are a parameter.
\<close>

text \<open>
  Modelled from the spec: the response schema of the copy (its \<open>app/schemas/document.py\<close>
  is missing) is the result structure of the spec, that is the record
  \<open>VerificationResponse\<close> above with its constructor \<open>new_response\<close>.
\<close>

definition DL_PATTERN_svc :: regex where
  "DL_PATTERN_svc =
     seq [Rep upper_letter 2 2, Rep sep 0 1, Rep digit 2 2, Rep sep 0 1, Rep digit 4 19]"

fun KEYWORD_PATTERNS_svc :: "DocumentType \<Rightarrow> regex list" where
  "KEYWORD_PATTERNS_svc DRIVING_LICENCE =
     [words [''driving'', ''licence''], words [''driving'', ''license''],
      words [''union'', ''of'', ''india''], words [''transport'', ''department''],
      words [''valid'', ''till''], words [''issued'', ''on'']]"
| "KEYWORD_PATTERNS_svc doc_type = KEYWORD_PATTERNS doc_type"

definition validate_dl_svc :: "string \<Rightarrow> match_result" where
  "validate_dl_svc text =
     (case re_search False DL_PATTERN_svc text of
        Some m \<Rightarrow>
          if contains ''DL'' text \<or> contains ''Licences'' text \<or> contains ''Driving'' text
          then (True, Some m, decimal 8 10)
          else (True, Some m, decimal 6 10)
      | None \<Rightarrow> (False, None, 0))"

definition found_keywords_svc :: "string \<Rightarrow> DocumentType \<Rightarrow> nat" where
  "found_keywords_svc text doc_type =
     (let text_lower = lower text
      in length (filter (\<lambda>pattern. found pattern text_lower) (KEYWORD_PATTERNS_svc doc_type)))"

definition calculate_scoring_svc :: "string \<Rightarrow> DocumentType \<Rightarrow> double" where
  "calculate_scoring_svc text doc_type =
     (let score = 0;
          score = (if 1 \<le> found_keywords_svc text doc_type then fadd score (decimal 4 10) else score);
          score = (if 2 \<le> found_keywords_svc text doc_type then fadd score (decimal 2 10) else score)
      in score)"

definition detect_svc :: "string \<Rightarrow> candidate" where
  "detect_svc text =
     (let c = (UNKNOWN, None, 0);
          c = (case validate_aadhaar text of (is_aadhaar, aadhaar_no, aadhaar_score) \<Rightarrow>
                 if is_aadhaar then (AADHAAR, aadhaar_no, aadhaar_score) else c);
          c = (if fst c = UNKNOWN
               then (case validate_pan text of (is_pan, pan_no, pan_score) \<Rightarrow>
                       if is_pan then (PAN, pan_no, pan_score) else c)
               else c);
          c = (if fst c = UNKNOWN
               then (case validate_dl_svc text of (is_dl, dl_no, dl_score) \<Rightarrow>
                       if is_dl then (DRIVING_LICENCE, dl_no, dl_score) else c)
               else c)
      in case c of (detected_type, id_number, base_confidence) \<Rightarrow>
           if detected_type = UNKNOWN
           then (case max_key snd (AADHAAR, calculate_scoring_svc text AADHAAR)
                        [(PAN, calculate_scoring_svc text PAN),
                         (DRIVING_LICENCE, calculate_scoring_svc text DRIVING_LICENCE)] of
                   (best_type, best_kw_score) \<Rightarrow>
                     if 0 < best_kw_score then (best_type, id_number, 0)
                     else (detected_type, id_number, base_confidence))
           else (detected_type, id_number, base_confidence))"

definition blend_svc :: "string \<Rightarrow> DocumentType \<Rightarrow> double \<Rightarrow> double" where
  "blend_svc text detected_type base_confidence =
     (if detected_type \<noteq> UNKNOWN
      then blend_value base_confidence (calculate_scoring_svc text detected_type)
      else 0)"

definition classify_and_verify_svc :: "Settings \<Rightarrow> string \<Rightarrow> error + VerificationResponse" where
  "classify_and_verify_svc cfg text =
     (case detect_svc text of (detected_type, id_number, base_confidence) \<Rightarrow>
        let score = blend_svc text detected_type base_confidence
        in case decide cfg detected_type score of (st, reason) \<Rightarrow>
             new_response st detected_type (round2 score) reason (fields_of id_number) (Some text))"

section \<open>Notions used in the statements\<close>

text \<open>The number of indicator patterns of the licence matcher that are found in the
  lower-cased text: the length of the list that \<open>validate_dl\<close> builds before its last
  test.\<close>

definition dl_indicator_hits :: "string \<Rightarrow> nat" where
  "dl_indicator_hits text =
     length (filter (\<lambda>kw. found kw (lower text)) dl_keyword_indicators)"

text \<open>The base confidences that the three matchers and the fallback can produce.\<close>

definition is_base :: "double \<Rightarrow> bool" where
  "is_base b = (b = 0 \<or> b = decimal 6 10 \<or> b = decimal 7 10 \<or> b = decimal 85 100
                \<or> b = decimal 95 100 \<or> b = 1)"

section \<open>The double arithmetic of the scores\<close>

text \<open>
  The sums and products that the engine can compute, each evaluated with the rounding
  of doubles. A result is written as the shortest decimal that denotes it, as Python
  prints it: \<open>decimal 6000000000000001 10000000000000000\<close> is the double
  \<open>0.6000000000000001\<close>. The doubles 0.4 and 0.2 are \<open>3602879701896397 / 2 ^ 53\<close> and
  \<open>3602879701896397 / 2 ^ 54\<close>; their sum \<open>10808639105689191 / 2 ^ 54\<close> lies half-way
  between two doubles and goes to the even one, \<open>5404319552844596 / 2 ^ 53\<close>, while the
  double 0.6 is \<open>5404319552844595 / 2 ^ 53\<close>.
\<close>

lemma kw_two: "fadd (decimal 4 10) (decimal 2 10) = (decimal 6000000000000001 10000000000000000)"
  by code_simp

lemma kw_one: "fadd 0 (decimal 4 10) = decimal 4 10"
  by code_simp

lemma mul_0_0: "fmul 0 (decimal 6 10) = 0"
  by code_simp

lemma add_0_0_0_0: "fadd 0 0 = 0"
  by code_simp

lemma min_0_0: "min 0 (decimal 99 100) = 0"
  by code_simp

lemma add_0_0_0_4: "fadd 0 (decimal 4 10) = (decimal 4 10)"
  by code_simp

lemma min_0_4: "min (decimal 4 10) (decimal 99 100) = (decimal 4 10)"
  by code_simp

lemma add_0_0_0_6000000000000001: "fadd 0 (decimal 6000000000000001 10000000000000000) = (decimal 6000000000000001 10000000000000000)"
  by code_simp

lemma min_0_6000000000000001: "min (decimal 6000000000000001 10000000000000000) (decimal 99 100) = (decimal 6000000000000001 10000000000000000)"
  by code_simp

lemma boost_0_0: "\<not> decimal 8 10 \<le> 0"
  by code_simp

lemma mul_0_6: "fmul (decimal 6 10) (decimal 6 10) = (decimal 36 100)"
  by code_simp

lemma add_0_36_0_0: "fadd (decimal 36 100) 0 = (decimal 36 100)"
  by code_simp

lemma min_0_36: "min (decimal 36 100) (decimal 99 100) = (decimal 36 100)"
  by code_simp

lemma add_0_36_0_4: "fadd (decimal 36 100) (decimal 4 10) = (decimal 76 100)"
  by code_simp

lemma min_0_76: "min (decimal 76 100) (decimal 99 100) = (decimal 76 100)"
  by code_simp

lemma add_0_36_0_6000000000000001: "fadd (decimal 36 100) (decimal 6000000000000001 10000000000000000) = (decimal 9600000000000001 10000000000000000)"
  by code_simp

lemma min_0_9600000000000001: "min (decimal 9600000000000001 10000000000000000) (decimal 99 100) = (decimal 9600000000000001 10000000000000000)"
  by code_simp

lemma boost_0_6: "\<not> decimal 8 10 \<le> (decimal 6 10)"
  by code_simp

lemma mul_0_7: "fmul (decimal 7 10) (decimal 6 10) = (decimal 42 100)"
  by code_simp

lemma add_0_42_0_0: "fadd (decimal 42 100) 0 = (decimal 42 100)"
  by code_simp

lemma min_0_42: "min (decimal 42 100) (decimal 99 100) = (decimal 42 100)"
  by code_simp

lemma add_0_42_0_4: "fadd (decimal 42 100) (decimal 4 10) = (decimal 8200000000000001 10000000000000000)"
  by code_simp

lemma min_0_8200000000000001: "min (decimal 8200000000000001 10000000000000000) (decimal 99 100) = (decimal 8200000000000001 10000000000000000)"
  by code_simp

lemma add_0_42_0_6000000000000001: "fadd (decimal 42 100) (decimal 6000000000000001 10000000000000000) = (decimal 102 100)"
  by code_simp

lemma min_1_02: "min (decimal 102 100) (decimal 99 100) = (decimal 99 100)"
  by code_simp

lemma boost_0_7: "\<not> decimal 8 10 \<le> (decimal 7 10)"
  by code_simp

lemma mul_0_85: "fmul (decimal 85 100) (decimal 6 10) = (decimal 51 100)"
  by code_simp

lemma add_0_51_0_0: "fadd (decimal 51 100) 0 = (decimal 51 100)"
  by code_simp

lemma min_0_51: "min (decimal 51 100) (decimal 99 100) = (decimal 51 100)"
  by code_simp

lemma add_0_51_0_4: "fadd (decimal 51 100) (decimal 4 10) = (decimal 91 100)"
  by code_simp

lemma add_0_91_0_2: "fadd (decimal 91 100) (decimal 2 10) = (decimal 111 100)"
  by code_simp

lemma min_1_11: "min (decimal 111 100) (decimal 99 100) = (decimal 99 100)"
  by code_simp

lemma min_0_99: "min (decimal 99 100) (decimal 99 100) = (decimal 99 100)"
  by code_simp

lemma add_0_51_0_6000000000000001: "fadd (decimal 51 100) (decimal 6000000000000001 10000000000000000) = (decimal 111 100)"
  by code_simp

lemma add_1_11_0_2: "fadd (decimal 111 100) (decimal 2 10) = (decimal 131 100)"
  by code_simp

lemma min_1_31: "min (decimal 131 100) (decimal 99 100) = (decimal 99 100)"
  by code_simp

lemma boost_0_85: "decimal 8 10 \<le> (decimal 85 100)"
  by code_simp

lemma mul_0_95: "fmul (decimal 95 100) (decimal 6 10) = (decimal 57 100)"
  by code_simp

lemma add_0_57_0_0: "fadd (decimal 57 100) 0 = (decimal 57 100)"
  by code_simp

lemma min_0_57: "min (decimal 57 100) (decimal 99 100) = (decimal 57 100)"
  by code_simp

lemma add_0_57_0_4: "fadd (decimal 57 100) (decimal 4 10) = (decimal 97 100)"
  by code_simp

lemma add_0_97_0_2: "fadd (decimal 97 100) (decimal 2 10) = (decimal 117 100)"
  by code_simp

lemma min_1_17: "min (decimal 117 100) (decimal 99 100) = (decimal 99 100)"
  by code_simp

lemma add_0_57_0_6000000000000001: "fadd (decimal 57 100) (decimal 6000000000000001 10000000000000000) = (decimal 117 100)"
  by code_simp

lemma add_1_17_0_2: "fadd (decimal 117 100) (decimal 2 10) = (decimal 13699999999999999 10000000000000000)"
  by code_simp

lemma min_1_3699999999999999: "min (decimal 13699999999999999 10000000000000000) (decimal 99 100) = (decimal 99 100)"
  by code_simp

lemma boost_0_95: "decimal 8 10 \<le> (decimal 95 100)"
  by code_simp

lemma mul_1_0: "fmul 1 (decimal 6 10) = (decimal 6 10)"
  by code_simp

lemma add_0_6_0_0: "fadd (decimal 6 10) 0 = (decimal 6 10)"
  by code_simp

lemma min_0_6: "min (decimal 6 10) (decimal 99 100) = (decimal 6 10)"
  by code_simp

lemma add_0_6_0_4: "fadd (decimal 6 10) (decimal 4 10) = 1"
  by code_simp

lemma add_1_0_0_2: "fadd 1 (decimal 2 10) = (decimal 12 10)"
  by code_simp

lemma min_1_2: "min (decimal 12 10) (decimal 99 100) = (decimal 99 100)"
  by code_simp

lemma add_0_6_0_6000000000000001: "fadd (decimal 6 10) (decimal 6000000000000001 10000000000000000) = (decimal 12000000000000002 10000000000000000)"
  by code_simp

lemma add_1_2000000000000002_0_2: "fadd (decimal 12000000000000002 10000000000000000) (decimal 2 10) = (decimal 14000000000000001 10000000000000000)"
  by code_simp

lemma min_1_4000000000000001: "min (decimal 14000000000000001 10000000000000000) (decimal 99 100) = (decimal 99 100)"
  by code_simp

lemma boost_1_0: "decimal 8 10 \<le> 1"
  by code_simp

lemma mul4_0_0: "fmul 0 (decimal 4 10) = 0"
  by code_simp

lemma mul4_0_4: "fmul (decimal 4 10) (decimal 4 10) = (decimal 16000000000000003 100000000000000000)"
  by code_simp

lemma mul4_0_6000000000000001: "fmul (decimal 6000000000000001 10000000000000000) (decimal 4 10) = (decimal 24000000000000005 100000000000000000)"
  by code_simp

lemma tot_1_0_0_0: "fadd (decimal 6 10) 0 = (decimal 6 10)"
  by code_simp

lemma tot_1_0_0_4: "fadd (decimal 6 10) (decimal 16000000000000003 100000000000000000) = (decimal 76 100)"
  by code_simp

lemma tot_0_6_0_6000000000000001: "fadd (decimal 36 100) (decimal 24000000000000005 100000000000000000) = (decimal 6000000000000001 10000000000000000)"
  by code_simp

lemma pos_0_4: "0 < decimal 4 10"
  by code_simp

lemma pos_kw_two: "0 < (decimal 6000000000000001 10000000000000000)"
  by code_simp

lemmas score_arith = add_0_0_0_0 add_0_0_0_4 add_0_0_0_6000000000000001 add_0_36_0_0 add_0_36_0_4 add_0_36_0_6000000000000001 add_0_42_0_0 add_0_42_0_4 add_0_42_0_6000000000000001 add_0_51_0_0 add_0_51_0_4 add_0_51_0_6000000000000001 add_0_57_0_0 add_0_57_0_4 add_0_57_0_6000000000000001 add_0_6_0_0 add_0_6_0_4 add_0_6_0_6000000000000001 add_0_91_0_2 add_0_97_0_2 add_1_0_0_2 add_1_11_0_2 add_1_17_0_2 add_1_2000000000000002_0_2 boost_0_0 boost_0_6 boost_0_7 boost_0_85 boost_0_95 boost_1_0 kw_one kw_two min_0_0 min_0_36 min_0_4 min_0_42 min_0_51 min_0_57 min_0_6 min_0_6000000000000001 min_0_76 min_0_8200000000000001 min_0_9600000000000001 min_0_99 min_1_02 min_1_11 min_1_17 min_1_2 min_1_31 min_1_3699999999999999 min_1_4000000000000001 mul4_0_0 mul4_0_4 mul4_0_6000000000000001 mul_0_0 mul_0_6 mul_0_7 mul_0_85 mul_0_95 mul_1_0 pos_0_4 pos_kw_two tot_0_6_0_6000000000000001 tot_1_0_0_0 tot_1_0_0_4

lemma blend_0_0_0_0: "blend_value 0 0 = 0"
  by (simp add: blend_value_def score_arith)

lemma blend_0_0_0_4: "blend_value 0 (decimal 4 10) = (decimal 4 10)"
  by (simp add: blend_value_def score_arith)

lemma blend_0_0_0_6000000000000001: "blend_value 0 (decimal 6000000000000001 10000000000000000) = (decimal 6000000000000001 10000000000000000)"
  by (simp add: blend_value_def score_arith)

lemma blend_0_6_0_0: "blend_value (decimal 6 10) 0 = (decimal 36 100)"
  by (simp add: blend_value_def score_arith)

lemma blend_0_6_0_4: "blend_value (decimal 6 10) (decimal 4 10) = (decimal 76 100)"
  by (simp add: blend_value_def score_arith)

lemma blend_0_6_0_6000000000000001: "blend_value (decimal 6 10) (decimal 6000000000000001 10000000000000000) = (decimal 9600000000000001 10000000000000000)"
  by (simp add: blend_value_def score_arith)

lemma blend_0_7_0_0: "blend_value (decimal 7 10) 0 = (decimal 42 100)"
  by (simp add: blend_value_def score_arith)

lemma blend_0_7_0_4: "blend_value (decimal 7 10) (decimal 4 10) = (decimal 8200000000000001 10000000000000000)"
  by (simp add: blend_value_def score_arith)

lemma blend_0_7_0_6000000000000001: "blend_value (decimal 7 10) (decimal 6000000000000001 10000000000000000) = (decimal 99 100)"
  by (simp add: blend_value_def score_arith)

lemma blend_0_85_0_0: "blend_value (decimal 85 100) 0 = (decimal 51 100)"
  by (simp add: blend_value_def score_arith)

lemma blend_0_85_0_4: "blend_value (decimal 85 100) (decimal 4 10) = (decimal 99 100)"
  by (simp add: blend_value_def score_arith)

lemma blend_0_85_0_6000000000000001: "blend_value (decimal 85 100) (decimal 6000000000000001 10000000000000000) = (decimal 99 100)"
  by (simp add: blend_value_def score_arith)

lemma blend_0_95_0_0: "blend_value (decimal 95 100) 0 = (decimal 57 100)"
  by (simp add: blend_value_def score_arith)

lemma blend_0_95_0_4: "blend_value (decimal 95 100) (decimal 4 10) = (decimal 99 100)"
  by (simp add: blend_value_def score_arith)

lemma blend_0_95_0_6000000000000001: "blend_value (decimal 95 100) (decimal 6000000000000001 10000000000000000) = (decimal 99 100)"
  by (simp add: blend_value_def score_arith)

lemma blend_1_0_0_0: "blend_value 1 0 = (decimal 6 10)"
  by (simp add: blend_value_def score_arith)

lemma blend_1_0_0_4: "blend_value 1 (decimal 4 10) = (decimal 99 100)"
  by (simp add: blend_value_def score_arith)

lemma blend_1_0_0_6000000000000001: "blend_value 1 (decimal 6000000000000001 10000000000000000) = (decimal 99 100)"
  by (simp add: blend_value_def score_arith)

lemmas blend_table = blend_0_0_0_0 blend_0_0_0_4 blend_0_0_0_6000000000000001 blend_0_6_0_0 blend_0_6_0_4 blend_0_6_0_6000000000000001 blend_0_7_0_0 blend_0_7_0_4 blend_0_7_0_6000000000000001 blend_0_85_0_0 blend_0_85_0_4 blend_0_85_0_6000000000000001 blend_0_95_0_0 blend_0_95_0_4 blend_0_95_0_6000000000000001 blend_1_0_0_0 blend_1_0_0_4 blend_1_0_0_6000000000000001

lemma round2_zero: "round2 0 = 0"
  by code_simp

lemma round_0_36: "round2 (decimal 36 100) = (decimal 36 100)"
  by code_simp

lemma round_0_4: "round2 (decimal 4 10) = (decimal 4 10)"
  by code_simp

lemma round_0_42: "round2 (decimal 42 100) = (decimal 42 100)"
  by code_simp

lemma round_0_51: "round2 (decimal 51 100) = (decimal 51 100)"
  by code_simp

lemma round_0_57: "round2 (decimal 57 100) = (decimal 57 100)"
  by code_simp

lemma round_0_6: "round2 (decimal 6 10) = (decimal 6 10)"
  by code_simp

lemma round_0_6000000000000001: "round2 (decimal 6000000000000001 10000000000000000) = (decimal 6 10)"
  by code_simp

lemma round_0_76: "round2 (decimal 76 100) = (decimal 76 100)"
  by code_simp

lemma round_0_8200000000000001: "round2 (decimal 8200000000000001 10000000000000000) = (decimal 82 100)"
  by code_simp

lemma round_0_9600000000000001: "round2 (decimal 9600000000000001 10000000000000000) = (decimal 96 100)"
  by code_simp

lemma round_0_99: "round2 (decimal 99 100) = (decimal 99 100)"
  by code_simp

lemmas round_table = round2_zero round_0_36 round_0_4 round_0_42 round_0_51 round_0_57 round_0_6 round_0_6000000000000001 round_0_76 round_0_8200000000000001 round_0_9600000000000001 round_0_99

lemma val_0_36: "decimal 36 100 = 3242591731706757 / 9007199254740992"
  by code_simp

lemma val_0_4: "decimal 4 10 = 3602879701896397 / 9007199254740992"
  by code_simp

lemma val_0_42: "decimal 42 100 = 7566047373982433 / 18014398509481984"
  by code_simp

lemma val_0_51: "decimal 51 100 = 2296835809958953 / 4503599627370496"
  by code_simp

lemma val_0_57: "decimal 57 100 = 5134103575202365 / 9007199254740992"
  by code_simp

lemma val_0_6: "decimal 6 10 = 5404319552844595 / 9007199254740992"
  by code_simp

lemma val_0_6000000000000001: "decimal 6000000000000001 10000000000000000 = 1351079888211149 / 2251799813685248"
  by code_simp

lemma val_0_7: "decimal 7 10 = 3152519739159347 / 4503599627370496"
  by code_simp

lemma val_0_76: "decimal 76 100 = 3422735716801577 / 4503599627370496"
  by code_simp

lemma val_0_8: "decimal 8 10 = 3602879701896397 / 4503599627370496"
  by code_simp

lemma val_0_82: "decimal 82 100 = 7385903388887613 / 9007199254740992"
  by code_simp

lemma val_0_8200000000000001: "decimal 8200000000000001 10000000000000000 = 3692951694443807 / 4503599627370496"
  by code_simp

lemma val_0_85: "decimal 85 100 = 7656119366529843 / 9007199254740992"
  by code_simp

lemma val_0_95: "decimal 95 100 = 4278419646001971 / 4503599627370496"
  by code_simp

lemma val_0_96: "decimal 96 100 = 1080863910568919 / 1125899906842624"
  by code_simp

lemma val_0_9600000000000001: "decimal 9600000000000001 10000000000000000 = 8646911284551353 / 9007199254740992"
  by code_simp

lemma val_0_99: "decimal 99 100 = 4458563631096791 / 4503599627370496"
  by code_simp

lemma val_0_60: "decimal 60 100 = 5404319552844595 / 9007199254740992"
  by code_simp

lemmas decimal_values = val_0_36 val_0_4 val_0_42 val_0_51 val_0_57 val_0_6 val_0_6000000000000001 val_0_7 val_0_76 val_0_8 val_0_82 val_0_8200000000000001 val_0_85 val_0_95 val_0_96 val_0_9600000000000001 val_0_99 val_0_60

section \<open>Choosing among candidates\<close>

lemma calculate_scoring_steps:
  "calculate_scoring t d =
     (if found_keywords t d = 0 then 0
      else if found_keywords t d = 1 then decimal 4 10
      else decimal 6000000000000001 10000000000000000)"
  by (simp add: calculate_scoring_def Let_def kw_one kw_two)

lemma calculate_scoring_cases:
  "calculate_scoring t d = 0 \<or> calculate_scoring t d = decimal 4 10
   \<or> calculate_scoring t d = decimal 6000000000000001 10000000000000000"
  by (simp add: calculate_scoring_steps)

lemma max_key_ge: "key x \<le> key (max_key key x xs)"
proof (induction xs arbitrary: x)
  case Nil
  then show ?case by simp
next
  case (Cons y ys)
  show ?case
  proof (cases "key x < key y")
    case True
    then have "key x \<le> key y" by simp
    also have "key y \<le> key (max_key key y ys)" by (rule Cons.IH)
    finally show ?thesis using True by simp
  next
    case False
    then show ?thesis using Cons.IH [of x] by simp
  qed
qed

lemma max_key_split:
  "\<exists>pre post. x # xs = pre @ max_key key x xs # post
     \<and> (\<forall>z\<in>set pre. key z < key (max_key key x xs))
     \<and> (\<forall>z\<in>set post. key z \<le> key (max_key key x xs))"
proof (induction xs arbitrary: x)
  case Nil
  have "[x] = [] @ max_key key x [] # []" by simp
  then show ?case by fastforce
next
  case (Cons y ys)
  show ?case
  proof (cases "key x < key y")
    case True
    define m where "m = max_key key y ys"
    have e: "max_key key x (y # ys) = m" using True by (simp add: m_def)
    from Cons.IH [of y] obtain pre post where
      s: "y # ys = pre @ m # post"
      and p: "\<forall>z\<in>set pre. key z < key m"
      and q: "\<forall>z\<in>set post. key z \<le> key m" unfolding m_def by blast
    have "key y \<le> key m" unfolding m_def by (rule max_key_ge)
    with True have "key x < key m" by simp
    with p have p': "\<forall>z\<in>set (x # pre). key z < key m" by simp
    from s have "x # y # ys = (x # pre) @ m # post" by simp
    with p' q show ?thesis unfolding e by blast
  next
    case False
    define m where "m = max_key key x ys"
    have e: "max_key key x (y # ys) = m" using False by (simp add: m_def)
    from Cons.IH [of x] obtain pre post where
      s: "x # ys = pre @ m # post"
      and p: "\<forall>z\<in>set pre. key z < key m"
      and q: "\<forall>z\<in>set post. key z \<le> key m" unfolding m_def by blast
    show ?thesis
    proof (cases pre)
      case Nil
      with s have mx: "m = x" and py: "post = ys" by simp_all
      from q py mx False have "\<forall>z\<in>set (y # ys). key z \<le> key m" by simp
      moreover have "x # y # ys = [] @ m # (y # ys)" by (simp add: mx)
      moreover have "\<forall>z\<in>set []. key z < key m" by simp
      ultimately show ?thesis unfolding e by blast
    next
      case (Cons a pre')
      with s have a: "a = x" and t: "ys = pre' @ m # post" by simp_all
      have "key x < key m" using p Cons a by simp
      with False have "key y < key m" by simp
      with p Cons a have "\<forall>z\<in>set (x # y # pre'). key z < key m" by simp
      moreover from t have "x # y # ys = (x # y # pre') @ m # post" by simp
      ultimately show ?thesis using q unfolding e by blast
    qed
  qed
qed

lemma validate_aadhaar_cases:
  "validate_aadhaar t = (False, None, 0) \<or> (\<exists>m. validate_aadhaar t = (True, Some m, 1))"
  by (simp add: validate_aadhaar_def split: option.split)

lemma validate_pan_cases:
  "validate_pan t = (False, None, 0) \<or> (\<exists>m. validate_pan t = (True, Some m, 1))"
  by (simp add: validate_pan_def split: option.split)

lemma validate_dl_cases:
  "validate_dl t = (False, None, 0)
   \<or> (\<exists>i b. validate_dl t = (True, i, b)
        \<and> (b = decimal 6 10 \<or> b = decimal 7 10 \<or> b = decimal 85 100 \<or> b = decimal 95 100))"
  by (simp add: validate_dl_def Let_def split: option.split)

lemma candidates_member:
  assumes "c \<in> set (candidates t)"
  shows "fst c \<noteq> UNKNOWN \<and> is_base (snd (snd c))"
  using assms validate_aadhaar_cases [of t] validate_pan_cases [of t] validate_dl_cases [of t]
  by (auto simp: candidates_def is_base_def split: if_splits)

lemma scored_key: "snd (snd (snd (scored t c))) = total_score t c"
  by (simp add: scored_def split: prod.split)

lemma scored_triple:
  "(case scored t c of (doc_type, number, base_score, total_sc) \<Rightarrow> (doc_type, number, base_score)) = c"
  by (simp add: scored_def split: prod.split)

lemma select_split:
  assumes "candidates t = c # c' # cs"
  shows "\<exists>pre post. candidates t = pre @ select t # post
     \<and> (\<forall>z\<in>set pre. total_score t z < total_score t (select t))
     \<and> (\<forall>z\<in>set post. total_score t z \<le> total_score t (select t))"
proof -
  define key where "key = (\<lambda>x::DocumentType \<times> string option \<times> double \<times> double. snd (snd (snd x)))"
  define m where "m = max_key key (scored t c) (map (scored t) (c' # cs))"
  have k: "key (scored t z) = total_score t z" for z
    by (simp add: key_def scored_key)
  from max_key_split [of "scored t c" "map (scored t) (c' # cs)" key]
  obtain pre post where
    s: "scored t c # map (scored t) (c' # cs) = pre @ m # post"
    and p: "\<forall>z\<in>set pre. key z < key m"
    and q: "\<forall>z\<in>set post. key z \<le> key m" unfolding m_def by blast
  from s have "map (scored t) (c # c' # cs) = pre @ m # post" by simp
  then obtain pre0 w post0 where
    w: "c # c' # cs = pre0 @ w # post0" and w1: "pre = map (scored t) pre0"
    and w2: "m = scored t w" and w3: "post = map (scored t) post0"
    unfolding map_eq_append_conv map_eq_Cons_conv by blast
  have "select t = (case m of (doc_type, number, base_score, total_sc) \<Rightarrow> (doc_type, number, base_score))"
    using assms by (simp add: select_def m_def key_def)
  then have sel: "select t = w"
    by (simp add: w2 scored_triple)
  from p w1 w2 have "\<forall>z\<in>set pre0. total_score t z < total_score t w"
    by (simp add: k)
  moreover from q w3 w2 have "\<forall>z\<in>set post0. total_score t z \<le> total_score t w"
    by (simp add: k)
  ultimately show ?thesis using w assms sel by auto
qed

lemma select_member:
  assumes "candidates t \<noteq> []"
  shows "select t \<in> set (candidates t)"
proof (cases "candidates t")
  case Nil
  with assms show ?thesis by simp
next
  case (Cons c cs)
  show ?thesis
  proof (cases cs)
    case Nil
    with Cons show ?thesis by (simp add: select_def)
  next
    case (Cons c' cs')
    with \<open>candidates t = c # cs\<close> have "candidates t = c # c' # cs'" by simp
    from select_split [OF this] show ?thesis by auto
  qed
qed

lemma detect_fired:
  assumes "candidates t \<noteq> []"
  shows "detect t = select t" and "detect t \<in> set (candidates t)"
proof -
  from select_member [OF assms] candidates_member have "fst (select t) \<noteq> UNKNOWN" by blast
  then show "detect t = select t"
    by (cases "select t") (simp add: detect_def keyword_fallback_def)
  with select_member [OF assms] show "detect t \<in> set (candidates t)" by simp
qed

lemma detect_fallback:
  assumes "candidates t = []"
  shows "detect t =
     (case max_key snd (AADHAAR, calculate_scoring t AADHAAR)
             [(PAN, calculate_scoring t PAN), (DRIVING_LICENCE, calculate_scoring t DRIVING_LICENCE)] of
        (best_type, best_kw_score) \<Rightarrow>
          if 0 < best_kw_score then (best_type, None, 0) else (UNKNOWN, None, 0))"
  using assms by (simp add: detect_def select_def keyword_fallback_def)

lemma detect_shape:
  "is_base (snd (snd (detect t)))
   \<and> (fst (detect t) = UNKNOWN \<longrightarrow> detect t = (UNKNOWN, None, 0) \<and> candidates t = [])"
proof (cases "candidates t = []")
  case True
  then show ?thesis
    by (simp add: detect_fallback is_base_def split: prod.split)
next
  case False
  from detect_fired(2) [OF False] candidates_member [of "detect t" t] False
  show ?thesis by auto
qed

section \<open>Properties of the engine\<close>

lemma blend_value_props:
  assumes "is_base b"
    and "k = 0 \<or> k = decimal 4 10 \<or> k = decimal 6000000000000001 10000000000000000"
  shows "0 \<le> round2 (blend_value b k)"
    and "round2 (blend_value b k) \<le> decimal 99 100"
    and "(decimal 60 100 \<le> blend_value b k) = (decimal 60 100 \<le> round2 (blend_value b k))"
    and "(decimal 85 100 \<le> blend_value b k) = (decimal 85 100 \<le> round2 (blend_value b k))"
    and "0 \<le> blend_value b k" and "blend_value b k \<le> decimal 99 100"
  using assms unfolding is_base_def
  by (elim disjE; simp only: blend_table round_table; simp add: decimal_values)+

lemma final_score_eq:
  "final_score t = blend t (fst (detect t)) (snd (snd (detect t)))"
  by (simp add: final_score_def split: prod.split)

lemma final_score_detected:
  assumes "fst (detect t) \<noteq> UNKNOWN"
  shows "final_score t = blend_value (snd (snd (detect t))) (calculate_scoring t (fst (detect t)))"
  using assms by (simp add: final_score_eq blend_def)

lemma final_score_unknown:
  assumes "fst (detect t) = UNKNOWN"
  shows "final_score t = 0"
  using assms by (simp add: final_score_eq blend_def)

lemma reported_range:
  "0 \<le> round2 (final_score t) \<and> round2 (final_score t) \<le> decimal 99 100"
proof (cases "fst (detect t) = UNKNOWN")
  case True
  then show ?thesis by (simp add: final_score_unknown round2_zero decimal_values)
next
  case False
  from detect_shape [of t] have "is_base (snd (snd (detect t)))" by simp
  from blend_value_props(1,2) [OF this calculate_scoring_cases] False
  show ?thesis by (simp add: final_score_detected)
qed

lemma classify_and_verify_eq:
  "classify_and_verify cfg t =
     Inr \<lparr>status = fst (decide cfg (fst (detect t)) (final_score t)),
          detected_document_type = fst (detect t),
          confidence_score = round2 (final_score t),
          failure_reason = snd (decide cfg (fst (detect t)) (final_score t)),
          extracted_fields = fields_of (fst (snd (detect t))),
          raw_ocr_text = Some t\<rparr>"
proof -
  obtain dt idn b where d: "detect t = (dt, idn, b)" by (cases "detect t")
  have f: "final_score t = blend t dt b" by (simp add: final_score_def d)
  have "decimal 99 100 \<le> (1::rat)" by (simp add: decimal_values)
  with reported_range [of t] have "0 \<le> round2 (blend t dt b) \<and> round2 (blend t dt b) \<le> 1"
    by (simp add: f)
  then show ?thesis
    by (cases "decide cfg dt (blend t dt b)")
      (simp add: classify_and_verify_def d f new_response_def Let_def)
qed

text \<open>Concrete texts used below.\<close>

lemma pan_text_detect:
  "detect ''Income Tax Department GOVT OF INDIA Permanent Account Number ABCDE1234F''
     = (PAN, Some ''ABCDE1234F'', 1)"
  by code_simp

lemma pan_text_keywords:
  "found_keywords ''Income Tax Department GOVT OF INDIA Permanent Account Number ABCDE1234F'' PAN = 3"
  by code_simp

lemma pan_text_result:
  "classify_and_verify settings
     ''Income Tax Department GOVT OF INDIA Permanent Account Number ABCDE1234F''
   = Inr \<lparr>status = VERIFIED, detected_document_type = PAN, confidence_score = decimal 99 100,
          failure_reason = None, extracted_fields = [''id_number'' \<mapsto> ''ABCDE1234F''],
          raw_ocr_text = Some ''Income Tax Department GOVT OF INDIA Permanent Account Number ABCDE1234F''\<rparr>"
proof -
  have "final_score ''Income Tax Department GOVT OF INDIA Permanent Account Number ABCDE1234F''
          = decimal 99 100"
    by (simp add: final_score_def pan_text_detect blend_def calculate_scoring_steps
        pan_text_keywords blend_table)
  moreover have "decide settings PAN (decimal 99 100) = (VERIFIED, None)"
    by (simp add: decide_def settings_def decimal_values)
  ultimately show ?thesis
    by (simp add: classify_and_verify_eq pan_text_detect round_table fields_of_def)
qed

lemma float_repr_04: "float_repr (decimal 4 10) = ''0.4''"
  by code_simp

lemma fallback_best:
  "max_key snd (AADHAAR, a) [(PAN, p), (DRIVING_LICENCE, d)] =
     (if a < p then (if p < d then (DRIVING_LICENCE, d) else (PAN, p))
      else (if a < d then (DRIVING_LICENCE, d) else (AADHAAR, a)))"
  by simp

lemma detect_fallback_score:
  assumes "candidates t = []" and "fst (detect t) \<noteq> UNKNOWN"
  shows "detect t = (fst (detect t), None, 0)" and "0 < calculate_scoring t (fst (detect t))"
  using assms by (auto simp: detect_fallback fallback_best split: if_splits)

lemma empty_candidates: "candidates [] = []"
  by code_simp

lemma empty_keywords_each:
  "found_keywords [] AADHAAR = 0 \<and> found_keywords [] PAN = 0
   \<and> found_keywords [] DRIVING_LICENCE = 0 \<and> found_keywords [] UNKNOWN = 0"
  by code_simp

lemma empty_keywords: "found_keywords [] d = 0"
  using empty_keywords_each by (cases d) simp_all

lemma kw1_candidates: "candidates ''aadhaar'' = []"
  by code_simp

lemma kw1_keywords:
  "found_keywords ''aadhaar'' AADHAAR = 1 \<and> found_keywords ''aadhaar'' PAN = 0
   \<and> found_keywords ''aadhaar'' DRIVING_LICENCE = 0"
  by code_simp

lemma kw2_candidates: "candidates ''aadhaar uidai'' = []"
  by code_simp

lemma kw2_keywords:
  "found_keywords ''aadhaar uidai'' AADHAAR = 2 \<and> found_keywords ''aadhaar uidai'' PAN = 0
   \<and> found_keywords ''aadhaar uidai'' DRIVING_LICENCE = 0"
  by code_simp

lemma empty_detect: "detect [] = (UNKNOWN, None, 0)"
  by (simp add: detect_fallback empty_candidates calculate_scoring_steps empty_keywords)

lemma kw1_detect: "detect ''aadhaar'' = (AADHAAR, None, 0)"
  by (simp add: detect_fallback kw1_candidates calculate_scoring_steps kw1_keywords decimal_values)

lemma kw2_detect: "detect ''aadhaar uidai'' = (AADHAAR, None, 0)"
  by (simp add: detect_fallback kw2_candidates calculate_scoring_steps kw2_keywords decimal_values)

text \<open>
  Claim C1. When the engine detects a type other than UNKNOWN, the final confidence is
  \<open>base_confidence * 0.6\<close> plus the whole keyword score of the detected type; when the
  base confidence is at least 0.8 and the keyword score is positive, 0.2 is added and the
  sum capped at 0.99; the result is capped at 0.99. The response reports that score
  rounded to two decimals. For the text of the end-to-end example the response is
  verified, type pan, identifier \<open>ABCDE1234F\<close>, confidence 0.99.
\<close>

theorem final_confidence_blend:
  "(fst (detect t) \<noteq> UNKNOWN \<longrightarrow>
      final_score t =
        (let base_confidence = snd (snd (detect t));
             keyword_score = calculate_scoring t (fst (detect t));
             final = fadd (fmul base_confidence (decimal 6 10)) keyword_score;
             final = (if decimal 8 10 \<le> base_confidence \<and> 0 < keyword_score
                      then min (fadd final (decimal 2 10)) (decimal 99 100) else final)
         in min final (decimal 99 100))
      \<and> (\<exists>r. classify_and_verify cfg t = Inr r \<and> detected_document_type r = fst (detect t)
             \<and> confidence_score r = round2 (final_score t)))
   \<and> classify_and_verify settings
        ''Income Tax Department GOVT OF INDIA Permanent Account Number ABCDE1234F''
      = Inr \<lparr>status = VERIFIED, detected_document_type = PAN, confidence_score = decimal 99 100,
             failure_reason = None, extracted_fields = [''id_number'' \<mapsto> ''ABCDE1234F''],
             raw_ocr_text =
               Some ''Income Tax Department GOVT OF INDIA Permanent Account Number ABCDE1234F''\<rparr>"
proof -
  have "final_score t =
        (let base_confidence = snd (snd (detect t));
             keyword_score = calculate_scoring t (fst (detect t));
             final = fadd (fmul base_confidence (decimal 6 10)) keyword_score;
             final = (if decimal 8 10 \<le> base_confidence \<and> 0 < keyword_score
                      then min (fadd final (decimal 2 10)) (decimal 99 100) else final)
         in min final (decimal 99 100))"
    if "fst (detect t) \<noteq> UNKNOWN"
    using that by (simp add: final_score_detected blend_value_def Let_def)
  moreover have "\<exists>r. classify_and_verify cfg t = Inr r \<and> detected_document_type r = fst (detect t)
             \<and> confidence_score r = round2 (final_score t)"
    by (simp add: classify_and_verify_eq)
  ultimately have "fst (detect t) \<noteq> UNKNOWN \<longrightarrow>
      final_score t =
        (let base_confidence = snd (snd (detect t));
             keyword_score = calculate_scoring t (fst (detect t));
             final = fadd (fmul base_confidence (decimal 6 10)) keyword_score;
             final = (if decimal 8 10 \<le> base_confidence \<and> 0 < keyword_score
                      then min (fadd final (decimal 2 10)) (decimal 99 100) else final)
         in min final (decimal 99 100))
      \<and> (\<exists>r. classify_and_verify cfg t = Inr r \<and> detected_document_type r = fst (detect t)
             \<and> confidence_score r = round2 (final_score t))"
    by blast
  then show ?thesis using pan_text_result by (rule conjI)
qed

theorem final_confidence_blend_witness:
  "fst (detect ''aadhaar uidai'') \<noteq> UNKNOWN
   \<and> final_score ''aadhaar uidai'' = decimal 6000000000000001 10000000000000000
   \<and> (\<exists>r. classify_and_verify settings ''aadhaar uidai'' = Inr r
          \<and> detected_document_type r = AADHAAR \<and> confidence_score r = decimal 6 10)"
proof -
  have h: "fst (detect ''aadhaar uidai'') \<noteq> UNKNOWN" by (simp add: kw2_detect)
  from final_confidence_blend [of "''aadhaar uidai''" settings] h
  have "final_score ''aadhaar uidai'' =
        (let base_confidence = snd (snd (detect ''aadhaar uidai''));
             keyword_score = calculate_scoring ''aadhaar uidai'' (fst (detect ''aadhaar uidai''));
             final = fadd (fmul base_confidence (decimal 6 10)) keyword_score;
             final = (if decimal 8 10 \<le> base_confidence \<and> 0 < keyword_score
                      then min (fadd final (decimal 2 10)) (decimal 99 100) else final)
         in min final (decimal 99 100))"
    and "\<exists>r. classify_and_verify settings ''aadhaar uidai'' = Inr r
          \<and> detected_document_type r = fst (detect ''aadhaar uidai'')
          \<and> confidence_score r = round2 (final_score ''aadhaar uidai'')"
    by blast+
  then have "final_score ''aadhaar uidai'' = decimal 6000000000000001 10000000000000000"
    and "\<exists>r. classify_and_verify settings ''aadhaar uidai'' = Inr r
          \<and> detected_document_type r = AADHAAR
          \<and> confidence_score r = round2 (final_score ''aadhaar uidai'')"
    by (simp_all add: kw2_detect calculate_scoring_steps kw2_keywords Let_def score_arith)
  with h show ?thesis by (simp add: round_table)
qed

text \<open>
  Claim C2. Every call returns a response. When its type is not UNKNOWN the confidence
  lies between 0.0 and 0.99 and is never 1.00; when its type is UNKNOWN the confidence
  is exactly 0.0, there is no \<open>id_number\<close> among the extracted fields, and the failure
  reason is the message for an unidentified document.
\<close>

theorem confidence_invariant:
  "\<exists>r. classify_and_verify cfg t = Inr r
     \<and> (detected_document_type r \<noteq> UNKNOWN \<longrightarrow>
          0 \<le> confidence_score r \<and> confidence_score r \<le> decimal 99 100
          \<and> confidence_score r \<noteq> 1)
     \<and> (detected_document_type r = UNKNOWN \<longrightarrow>
          confidence_score r = 0 \<and> extracted_fields r ''id_number'' = None
          \<and> failure_reason r = Some unknown_reason)"
proof -
  have lt: "decimal 99 100 < (1::rat)" by (simp add: decimal_values)
  with reported_range [of t] have "round2 (final_score t) \<noteq> 1" by auto
  moreover have "round2 (final_score t) = 0 \<and> fields_of (fst (snd (detect t))) ''id_number'' = None
      \<and> snd (decide cfg (fst (detect t)) (final_score t)) = Some unknown_reason"
    if "fst (detect t) = UNKNOWN"
    using that detect_shape [of t]
    by (simp add: final_score_unknown round2_zero fields_of_def decide_def)
  ultimately show ?thesis
    using reported_range [of t] by (simp add: classify_and_verify_eq)
qed

theorem confidence_invariant_witness:
  "(\<exists>r. classify_and_verify settings [] = Inr r \<and> detected_document_type r = UNKNOWN
        \<and> confidence_score r = 0 \<and> extracted_fields r ''id_number'' = None
        \<and> failure_reason r = Some unknown_reason)
   \<and> (\<exists>r. classify_and_verify settings ''aadhaar'' = Inr r \<and> detected_document_type r \<noteq> UNKNOWN
        \<and> 0 \<le> confidence_score r \<and> confidence_score r \<le> decimal 99 100
        \<and> confidence_score r \<noteq> 1)"
  using confidence_invariant [of settings "[]"] confidence_invariant [of settings "''aadhaar''"]
  by (auto simp: classify_and_verify_eq empty_detect kw1_detect)

lemma default_decision:
  assumes "fst (detect t) \<noteq> UNKNOWN"
  shows "(CONFIDENCE_THRESHOLD_HIGH settings \<le> final_score t
          \<or> CONFIDENCE_THRESHOLD_LOW settings \<le> final_score t)
         = (decimal 60 100 \<le> round2 (final_score t))"
proof -
  from detect_shape [of t] have b: "is_base (snd (snd (detect t)))" by simp
  have "decimal 60 100 \<le> decimal 85 100" by (simp add: decimal_values)
  then have "decimal 85 100 \<le> x \<Longrightarrow> decimal 60 100 \<le> x" for x :: rat by simp
  then show ?thesis
    using blend_value_props(3) [OF b calculate_scoring_cases, of t "fst (detect t)"] assms
    by (auto simp: settings_def final_score_detected)
qed

text \<open>
  Claim C3, as amended. An UNKNOWN type is rejected with the message for an unidentified
  document. Otherwise the status is VERIFIED as soon as the final score reaches the HIGH
  or the LOW threshold, with no reason, and REJECTED below both, with the reason that
  names the score rounded to two decimals and the type. The comparison is made on the
  final score as computed, and the score is rounded only where it is reported: in the
  reason and in \<open>confidence_score\<close>. Under the default thresholds 0.85 and 0.60 the
  decision is the one that the reported, rounded score would give.
\<close>

theorem threshold_decision:
  "\<exists>r. classify_and_verify cfg t = Inr r
     \<and> confidence_score r = round2 (final_score t)
     \<and> (detected_document_type r = UNKNOWN \<longrightarrow>
          status r = REJECTED
          \<and> failure_reason r
              = Some ''Could not identify document type. No supported ID keywords or patterns found.'')
     \<and> (detected_document_type r \<noteq> UNKNOWN
          \<and> (CONFIDENCE_THRESHOLD_HIGH cfg \<le> final_score t
              \<or> CONFIDENCE_THRESHOLD_LOW cfg \<le> final_score t) \<longrightarrow>
          status r = VERIFIED \<and> failure_reason r = None)
     \<and> (detected_document_type r \<noteq> UNKNOWN
          \<and> \<not> CONFIDENCE_THRESHOLD_HIGH cfg \<le> final_score t
          \<and> \<not> CONFIDENCE_THRESHOLD_LOW cfg \<le> final_score t \<longrightarrow>
          status r = REJECTED
          \<and> failure_reason r
              = Some (''Confidence score ('' @ float_repr (round2 (final_score t))
                      @ '') too low for '' @ doc_value (detected_document_type r)
                      @ ''. Validation failed.''))
     \<and> (cfg = settings \<longrightarrow>
          (status r = VERIFIED
           \<longleftrightarrow> detected_document_type r \<noteq> UNKNOWN \<and> decimal 60 100 \<le> confidence_score r))"
proof -
  define dt where "dt = fst (detect t)"
  define s where "s = final_score t"
  have a: "dt = UNKNOWN \<Longrightarrow> decide cfg dt s
            = (REJECTED, Some ''Could not identify document type. No supported ID keywords or patterns found.'')"
    by (simp add: decide_def unknown_reason_def)
  have b: "dt \<noteq> UNKNOWN \<Longrightarrow>
           CONFIDENCE_THRESHOLD_HIGH cfg \<le> s \<or> CONFIDENCE_THRESHOLD_LOW cfg \<le> s \<Longrightarrow>
           decide cfg dt s = (VERIFIED, None)"
    by (auto simp: decide_def)
  have c: "dt \<noteq> UNKNOWN \<Longrightarrow>
           \<not> CONFIDENCE_THRESHOLD_HIGH cfg \<le> s \<Longrightarrow> \<not> CONFIDENCE_THRESHOLD_LOW cfg \<le> s \<Longrightarrow>
           decide cfg dt s
             = (REJECTED, Some (''Confidence score ('' @ float_repr (round2 s)
                      @ '') too low for '' @ doc_value dt @ ''. Validation failed.''))"
    by (simp add: decide_def too_low_reason_def)
  have d: "fst (decide settings dt s) = VERIFIED
        \<longleftrightarrow> dt \<noteq> UNKNOWN \<and> decimal 60 100 \<le> round2 s"
  proof (cases "dt = UNKNOWN")
    case True
    then show ?thesis by (simp add: decide_def)
  next
    case False
    then have "fst (detect t) \<noteq> UNKNOWN" by (simp add: dt_def)
    from default_decision [OF this] False show ?thesis
      unfolding s_def by (auto simp: decide_def)
  qed
  have e: "classify_and_verify cfg t =
     Inr \<lparr>status = fst (decide cfg dt s), detected_document_type = dt,
          confidence_score = round2 s, failure_reason = snd (decide cfg dt s),
          extracted_fields = fields_of (fst (snd (detect t))), raw_ocr_text = Some t\<rparr>"
    by (simp add: classify_and_verify_eq dt_def s_def)
  show ?thesis
    unfolding e s_def [symmetric] using a b c d by auto
qed

lemma kw1_final: "final_score ''aadhaar'' = decimal 4 10"
  by (simp add: final_score_def kw1_detect blend_def calculate_scoring_steps kw1_keywords blend_table)

lemma kw2_final: "final_score ''aadhaar uidai'' = decimal 6000000000000001 10000000000000000"
  by (simp add: final_score_def kw2_detect blend_def calculate_scoring_steps kw2_keywords blend_table)

theorem threshold_decision_witness:
  "(\<exists>r. classify_and_verify settings [] = Inr r \<and> detected_document_type r = UNKNOWN
        \<and> status r = REJECTED
        \<and> failure_reason r
            = Some ''Could not identify document type. No supported ID keywords or patterns found.'')
   \<and> (\<exists>r. classify_and_verify settings ''aadhaar uidai'' = Inr r
        \<and> detected_document_type r \<noteq> UNKNOWN
        \<and> CONFIDENCE_THRESHOLD_LOW settings \<le> final_score ''aadhaar uidai''
        \<and> status r = VERIFIED \<and> failure_reason r = None
        \<and> decimal 60 100 \<le> confidence_score r)
   \<and> (\<exists>r. classify_and_verify settings ''aadhaar'' = Inr r
        \<and> detected_document_type r \<noteq> UNKNOWN
        \<and> \<not> CONFIDENCE_THRESHOLD_HIGH settings \<le> final_score ''aadhaar''
        \<and> \<not> CONFIDENCE_THRESHOLD_LOW settings \<le> final_score ''aadhaar''
        \<and> status r = REJECTED
        \<and> failure_reason r = Some ''Confidence score (0.4) too low for aadhaar. Validation failed.'')"
proof -
  have a: "CONFIDENCE_THRESHOLD_LOW settings \<le> final_score ''aadhaar uidai''"
    by (simp add: settings_def kw2_final decimal_values)
  have b: "\<not> CONFIDENCE_THRESHOLD_HIGH settings \<le> final_score ''aadhaar''"
    "\<not> CONFIDENCE_THRESHOLD_LOW settings \<le> final_score ''aadhaar''"
    by (simp_all add: settings_def kw1_final decimal_values)
  have c: "float_repr (round2 (final_score ''aadhaar'')) = ''0.4''"
    by (simp add: kw1_final round_table float_repr_04)
  have d: "detected_document_type r = fst (detect x)" if "classify_and_verify settings x = Inr r" for r x
    using that by (auto simp: classify_and_verify_eq)
  from threshold_decision [of settings "[]"] d [of "[]"]
  have 1: "\<exists>r. classify_and_verify settings [] = Inr r \<and> detected_document_type r = UNKNOWN
        \<and> status r = REJECTED
        \<and> failure_reason r
            = Some ''Could not identify document type. No supported ID keywords or patterns found.''"
    by (auto simp: empty_detect)
  from threshold_decision [of settings "''aadhaar uidai''"] d [of "''aadhaar uidai''"] a
  have 2: "\<exists>r. classify_and_verify settings ''aadhaar uidai'' = Inr r
        \<and> detected_document_type r \<noteq> UNKNOWN
        \<and> CONFIDENCE_THRESHOLD_LOW settings \<le> final_score ''aadhaar uidai''
        \<and> status r = VERIFIED \<and> failure_reason r = None
        \<and> decimal 60 100 \<le> confidence_score r"
    by (auto simp: kw2_detect)
  from threshold_decision [of settings "''aadhaar''"] d [of "''aadhaar''"] b c
  have 3: "\<exists>r. classify_and_verify settings ''aadhaar'' = Inr r
        \<and> detected_document_type r \<noteq> UNKNOWN
        \<and> \<not> CONFIDENCE_THRESHOLD_HIGH settings \<le> final_score ''aadhaar''
        \<and> \<not> CONFIDENCE_THRESHOLD_LOW settings \<le> final_score ''aadhaar''
        \<and> status r = REJECTED
        \<and> failure_reason r = Some ''Confidence score (0.4) too low for aadhaar. Validation failed.''"
    by (auto simp: kw1_detect)
  from 1 2 3 show ?thesis by blast
qed

text \<open>
  The claim says that the comparison uses the rounded score that is reported. With the
  LOW threshold set to \<open>0.6000000000000001\<close> the text \<open>aadhaar uidai\<close> has the final score
  \<open>0.4 + 0.2 = 0.6000000000000001\<close>, which reaches the threshold: the response is VERIFIED
  while its reported score, 0.6, is below the threshold.
\<close>

theorem threshold_rounding_counterexample:
  "classify_and_verify
     \<lparr>CONFIDENCE_THRESHOLD_HIGH = decimal 85 100,
      CONFIDENCE_THRESHOLD_LOW = decimal 6000000000000001 10000000000000000\<rparr>
     ''aadhaar uidai''
   = Inr \<lparr>status = VERIFIED, detected_document_type = AADHAAR, confidence_score = decimal 6 10,
          failure_reason = None, extracted_fields = Map.empty,
          raw_ocr_text = Some ''aadhaar uidai''\<rparr>
   \<and> decimal 6 10 < decimal 6000000000000001 10000000000000000"
proof -
  have r: "round2 (final_score ''aadhaar uidai'') = decimal 6 10"
    by (simp add: kw2_final round_table)
  have d: "decide \<lparr>CONFIDENCE_THRESHOLD_HIGH = decimal 85 100,
                   CONFIDENCE_THRESHOLD_LOW = decimal 6000000000000001 10000000000000000\<rparr>
             AADHAAR (final_score ''aadhaar uidai'') = (VERIFIED, None)"
    by (simp add: decide_def kw2_final)
  have "decimal 6 10 < decimal 6000000000000001 10000000000000000"
    by (simp add: decimal_values)
  then show ?thesis
    by (simp add: classify_and_verify_eq kw2_detect r d fields_of_def)
qed

text \<open>
  Claim C10. When no matcher fires and the keyword fallback finds a type, that type has
  at least one keyword hit, the final score is the keyword score of that type and stays
  below the HIGH threshold, and under the default thresholds the response is VERIFIED
  with confidence 0.6 when the type has two hits or more, and REJECTED with confidence
  0.4 and the too-low reason when it has exactly one.
\<close>

theorem fallback_confidence:
  assumes "candidates t = []" and "fst (detect t) \<noteq> UNKNOWN"
  shows "1 \<le> found_keywords t (fst (detect t))
     \<and> final_score t = calculate_scoring t (fst (detect t))
     \<and> final_score t < CONFIDENCE_THRESHOLD_HIGH settings
     \<and> classify_and_verify settings t =
         Inr \<lparr>status = (if 2 \<le> found_keywords t (fst (detect t)) then VERIFIED else REJECTED),
              detected_document_type = fst (detect t),
              confidence_score =
                (if 2 \<le> found_keywords t (fst (detect t)) then decimal 6 10 else decimal 4 10),
              failure_reason =
                (if 2 \<le> found_keywords t (fst (detect t)) then None
                 else Some (''Confidence score (0.4) too low for '' @ doc_value (fst (detect t))
                            @ ''. Validation failed.'')),
              extracted_fields = Map.empty,
              raw_ocr_text = Some t\<rparr>"
proof -
  define dt where "dt = fst (detect t)"
  define n where "n = found_keywords t dt"
  from detect_fallback_score [OF assms]
  have d: "detect t = (dt, None, 0)" and pos: "0 < calculate_scoring t dt"
    by (simp_all add: dt_def)
  from assms(2) have u: "dt \<noteq> UNKNOWN" by (simp add: dt_def)
  from pos have n1: "1 \<le> n"
    by (simp add: n_def calculate_scoring_steps split: if_splits)
  have k: "calculate_scoring t dt
           = (if 2 \<le> n then decimal 6000000000000001 10000000000000000 else decimal 4 10)"
    using n1 by (auto simp: n_def calculate_scoring_steps)
  have f: "final_score t = calculate_scoring t dt"
    using u by (auto simp: final_score_def d blend_def k blend_table)
  have hi: "final_score t < CONFIDENCE_THRESHOLD_HIGH settings"
    by (simp add: f k settings_def decimal_values)
  have r: "round2 (final_score t) = (if 2 \<le> n then decimal 6 10 else decimal 4 10)"
    by (simp add: f k round_table)
  have c1: "\<not> CONFIDENCE_THRESHOLD_HIGH settings \<le> final_score t"
    using hi by simp
  have c2: "(CONFIDENCE_THRESHOLD_LOW settings \<le> final_score t) = (2 \<le> n)"
    by (simp add: f k settings_def decimal_values)
  have fr: "too_low_reason (final_score t) dt
            = ''Confidence score (0.4) too low for '' @ doc_value dt @ ''. Validation failed.''"
    if "\<not> 2 \<le> n"
    using that by (simp add: too_low_reason_def f k round_table float_repr_04)
  have dec: "decide settings dt (final_score t)
             = (if 2 \<le> n then (VERIFIED, None)
                else (REJECTED, Some (''Confidence score (0.4) too low for '' @ doc_value dt
                                      @ ''. Validation failed.'')))"
    using u fr by (simp add: decide_def c1 c2)
  have "classify_and_verify settings t =
         Inr \<lparr>status = (if 2 \<le> n then VERIFIED else REJECTED),
              detected_document_type = dt,
              confidence_score = (if 2 \<le> n then decimal 6 10 else decimal 4 10),
              failure_reason =
                (if 2 \<le> n then None
                 else Some (''Confidence score (0.4) too low for '' @ doc_value dt
                            @ ''. Validation failed.'')),
              extracted_fields = Map.empty,
              raw_ocr_text = Some t\<rparr>"
    by (simp add: classify_and_verify_eq d r dec fields_of_def)
  with n1 f hi show ?thesis unfolding n_def dt_def by blast
qed

theorem fallback_confidence_witness:
  "classify_and_verify settings ''aadhaar uidai''
     = Inr \<lparr>status = VERIFIED, detected_document_type = AADHAAR, confidence_score = decimal 6 10,
            failure_reason = None, extracted_fields = Map.empty,
            raw_ocr_text = Some ''aadhaar uidai''\<rparr>
   \<and> classify_and_verify settings ''aadhaar''
     = Inr \<lparr>status = REJECTED, detected_document_type = AADHAAR, confidence_score = decimal 4 10,
            failure_reason = Some ''Confidence score (0.4) too low for aadhaar. Validation failed.'',
            extracted_fields = Map.empty, raw_ocr_text = Some ''aadhaar''\<rparr>
   \<and> final_score ''aadhaar uidai'' < CONFIDENCE_THRESHOLD_HIGH settings"
proof -
  have h1: "fst (detect ''aadhaar uidai'') \<noteq> UNKNOWN" by (simp add: kw2_detect)
  have h2: "fst (detect ''aadhaar'') \<noteq> UNKNOWN" by (simp add: kw1_detect)
  from fallback_confidence [OF kw2_candidates h1] fallback_confidence [OF kw1_candidates h2]
  show ?thesis by (simp add: kw1_detect kw2_detect kw1_keywords kw2_keywords)
qed

text \<open>
  Claim C7, as amended. The scorer lower-cases the text and counts the patterns of the
  type's list that are found in it. It returns 0.0 for no hit, 0.4 for one hit, and for
  two hits or more the sum \<open>0.4 + 0.2\<close> as Python computes it, which is the double
  \<open>0.6000000000000001\<close>: greater than the double 0.6, and equal to it once rounded to two
  decimals. The score does not decrease when the count grows.
\<close>

theorem keyword_score_steps:
  "found_keywords t d
     = length (filter (\<lambda>pattern. re_search False pattern (lower t) \<noteq> None) (KEYWORD_PATTERNS d))
   \<and> calculate_scoring t d
     = (if found_keywords t d = 0 then 0
        else if found_keywords t d = 1 then decimal 4 10
        else fadd (decimal 4 10) (decimal 2 10))
   \<and> fadd (decimal 4 10) (decimal 2 10) = decimal 6000000000000001 10000000000000000
   \<and> decimal 6 10 < fadd (decimal 4 10) (decimal 2 10)
   \<and> round2 (fadd (decimal 4 10) (decimal 2 10)) = decimal 6 10
   \<and> (found_keywords t d \<le> found_keywords t' d' \<longrightarrow>
        calculate_scoring t d \<le> calculate_scoring t' d')"
proof -
  have a: "found_keywords t d
     = length (filter (\<lambda>pattern. re_search False pattern (lower t) \<noteq> None) (KEYWORD_PATTERNS d))"
    by (simp add: found_keywords_def found_def)
  have b: "calculate_scoring t d
     = (if found_keywords t d = 0 then 0
        else if found_keywords t d = 1 then decimal 4 10
        else fadd (decimal 4 10) (decimal 2 10))"
    by (simp add: calculate_scoring_steps kw_two)
  have c: "decimal 6 10 < decimal 6000000000000001 10000000000000000"
    by (simp add: decimal_values)
  have d: "(0::rat) \<le> decimal 4 10" "decimal 4 10 \<le> decimal 6000000000000001 10000000000000000"
    "(0::rat) \<le> decimal 6000000000000001 10000000000000000"
    by (simp_all add: decimal_values)
  have e: "found_keywords t d \<le> found_keywords t' d' \<longrightarrow>
        calculate_scoring t d \<le> calculate_scoring t' d'"
    using d by (auto simp: calculate_scoring_steps)
  from a b c e show ?thesis by (simp add: kw_two round_table)
qed

theorem keyword_score_steps_witness:
  "found_keywords ''aadhaar'' AADHAAR \<le> found_keywords ''aadhaar uidai'' AADHAAR
   \<and> calculate_scoring ''aadhaar'' AADHAAR \<le> calculate_scoring ''aadhaar uidai'' AADHAAR
   \<and> calculate_scoring ''aadhaar'' AADHAAR = decimal 4 10
   \<and> calculate_scoring ''aadhaar uidai'' AADHAAR = fadd (decimal 4 10) (decimal 2 10)"
proof -
  have h: "found_keywords ''aadhaar'' AADHAAR \<le> found_keywords ''aadhaar uidai'' AADHAAR"
    by (simp add: kw1_keywords kw2_keywords)
  from keyword_score_steps [of "''aadhaar''" AADHAAR "''aadhaar uidai''" AADHAAR] h
    keyword_score_steps [of "''aadhaar uidai''" AADHAAR "''aadhaar''" AADHAAR]
  show ?thesis by (simp add: kw1_keywords kw2_keywords)
qed

text \<open>
  The claim says that two hits give exactly 0.6. The text \<open>aadhaar uidai\<close> has two hits
  for Aadhaar and its score is not the double 0.6.
\<close>

theorem keyword_score_two_hits_counterexample:
  "found_keywords ''aadhaar uidai'' AADHAAR = 2
   \<and> calculate_scoring ''aadhaar uidai'' AADHAAR \<noteq> decimal 6 10"
proof -
  have "decimal 6000000000000001 10000000000000000 \<noteq> decimal 6 10"
    by (simp add: decimal_values)
  then show ?thesis by (simp add: calculate_scoring_steps kw2_keywords)
qed

lemma keyword_found_iff:
  "list_ex (\<lambda>pattern. found pattern (lower t)) dl_keyword_indicators = (1 \<le> dl_indicator_hits t)"
  by (auto simp: dl_indicator_hits_def list_ex_iff Suc_le_eq filter_empty_conv)

text \<open>
  Claim C6. The driving-licence matcher follows the decision table. With a number found:
  0.95 when an indicator pattern is found, else 0.85 when a context word occurs in the
  lower-cased text, else 0.7. With no number found: a match without identifier and
  with 0.6 when two indicator patterns or more are found, else no match.
\<close>

theorem validate_dl_table:
  "(re_search True DL_PATTERN t = Some m \<and> 1 \<le> dl_indicator_hits t \<longrightarrow>
      validate_dl t = (True, Some m, decimal 95 100))
   \<and> (re_search True DL_PATTERN t = Some m \<and> dl_indicator_hits t = 0
        \<and> list_ex (\<lambda>word. contains word (lower t)) dl_context_words \<longrightarrow>
      validate_dl t = (True, Some m, decimal 85 100))
   \<and> (re_search True DL_PATTERN t = Some m \<and> dl_indicator_hits t = 0
        \<and> \<not> list_ex (\<lambda>word. contains word (lower t)) dl_context_words \<longrightarrow>
      validate_dl t = (True, Some m, decimal 7 10))
   \<and> (re_search True DL_PATTERN t = None \<and> 2 \<le> dl_indicator_hits t \<longrightarrow>
      validate_dl t = (True, None, decimal 6 10))
   \<and> (re_search True DL_PATTERN t = None \<and> dl_indicator_hits t < 2 \<longrightarrow>
      validate_dl t = (False, None, 0))"
  using keyword_found_iff [of t]
  by (auto simp: validate_dl_def Let_def dl_indicator_hits_def)

lemma dl_row1:
  "re_search True DL_PATTERN ''Driving Licence DL-0420110149646'' = Some ''DL-0420110149646''
   \<and> dl_indicator_hits ''Driving Licence DL-0420110149646'' = 2"
  by code_simp

lemma dl_row2:
  "re_search True DL_PATTERN ''DL-0420110149646'' = Some ''DL-0420110149646''
   \<and> dl_indicator_hits ''DL-0420110149646'' = 0
   \<and> list_ex (\<lambda>word. contains word (lower ''DL-0420110149646'')) dl_context_words"
  by code_simp

lemma dl_row3:
  "re_search True DL_PATTERN ''mh12 20110012345'' = Some ''mh12 20110012345''
   \<and> dl_indicator_hits ''mh12 20110012345'' = 0
   \<and> \<not> list_ex (\<lambda>word. contains word (lower ''mh12 20110012345'')) dl_context_words"
  by code_simp

lemma dl_row4:
  "re_search True DL_PATTERN ''Regional Transport Motor Driving'' = None
   \<and> dl_indicator_hits ''Regional Transport Motor Driving'' = 2"
  by code_simp

lemma dl_row5:
  "re_search True DL_PATTERN ''Motor Vehicle'' = None \<and> dl_indicator_hits ''Motor Vehicle'' = 1"
  by code_simp

theorem validate_dl_table_witness:
  "validate_dl ''Driving Licence DL-0420110149646'' = (True, Some ''DL-0420110149646'', decimal 95 100)
   \<and> validate_dl ''DL-0420110149646'' = (True, Some ''DL-0420110149646'', decimal 85 100)
   \<and> validate_dl ''mh12 20110012345'' = (True, Some ''mh12 20110012345'', decimal 7 10)
   \<and> validate_dl ''Regional Transport Motor Driving'' = (True, None, decimal 6 10)
   \<and> validate_dl ''Motor Vehicle'' = (False, None, 0)"
  using validate_dl_table [of "''Driving Licence DL-0420110149646''" "''DL-0420110149646''"]
    validate_dl_table [of "''DL-0420110149646''" "''DL-0420110149646''"]
    validate_dl_table [of "''mh12 20110012345''" "''mh12 20110012345''"]
    validate_dl_table [of "''Regional Transport Motor Driving''"]
    validate_dl_table [of "''Motor Vehicle''"]
    dl_row1 dl_row2 dl_row3 dl_row4 dl_row5
  by simp

text \<open>
  Claim C8. When no matcher fires, the engine scores the three types; if the greatest
  score is positive it adopts the first type, in the order Aadhaar, PAN, driving licence,
  that has the greatest score, with base confidence 0.0 and no identifier; if the three
  scores are 0 the type stays UNKNOWN. The response of \<open>classify_and_verify\<close> carries
  that type, no extracted field, and the score blended from base confidence 0.0. The
  empty text has no candidate, stays UNKNOWN and is rejected.
\<close>

theorem keyword_fallback_choice:
  "(candidates t = [] \<longrightarrow>
      detect t =
        (let a = calculate_scoring t AADHAAR; p = calculate_scoring t PAN;
             d = calculate_scoring t DRIVING_LICENCE; m = max a (max p d)
         in if 0 < m
            then (if a = m then AADHAAR else if p = m then PAN else DRIVING_LICENCE, None, 0)
            else (UNKNOWN, None, 0))
      \<and> (\<exists>r. classify_and_verify cfg t = Inr r
             \<and> detected_document_type r =
                 (let a = calculate_scoring t AADHAAR; p = calculate_scoring t PAN;
                      d = calculate_scoring t DRIVING_LICENCE; m = max a (max p d)
                  in if 0 < m
                     then (if a = m then AADHAAR else if p = m then PAN else DRIVING_LICENCE)
                     else UNKNOWN)
             \<and> extracted_fields r = Map.empty
             \<and> confidence_score r = round2 (blend t (detected_document_type r) 0)))
   \<and> candidates [] = [] \<and> detect [] = (UNKNOWN, None, 0)
   \<and> classify_and_verify settings [] =
       Inr \<lparr>status = REJECTED, detected_document_type = UNKNOWN, confidence_score = 0,
            failure_reason =
              Some ''Could not identify document type. No supported ID keywords or patterns found.'',
            extracted_fields = Map.empty, raw_ocr_text = Some []\<rparr>"
proof -
  have d: "detect t =
        (let a = calculate_scoring t AADHAAR; p = calculate_scoring t PAN;
             d = calculate_scoring t DRIVING_LICENCE; m = max a (max p d)
         in if 0 < m
            then (if a = m then AADHAAR else if p = m then PAN else DRIVING_LICENCE, None, 0)
            else (UNKNOWN, None, 0))"
    if "candidates t = []"
    using that by (auto simp: detect_fallback fallback_best Let_def max_def)
  have r: "\<exists>r. classify_and_verify cfg t = Inr r
             \<and> detected_document_type r =
                 (let a = calculate_scoring t AADHAAR; p = calculate_scoring t PAN;
                      d = calculate_scoring t DRIVING_LICENCE; m = max a (max p d)
                  in if 0 < m
                     then (if a = m then AADHAAR else if p = m then PAN else DRIVING_LICENCE)
                     else UNKNOWN)
             \<and> extracted_fields r = Map.empty
             \<and> confidence_score r = round2 (blend t (detected_document_type r) 0)"
    if h: "candidates t = []"
  proof -
    from d [OF h] have
      "fst (detect t) =
                 (let a = calculate_scoring t AADHAAR; p = calculate_scoring t PAN;
                      d = calculate_scoring t DRIVING_LICENCE; m = max a (max p d)
                  in if 0 < m
                     then (if a = m then AADHAAR else if p = m then PAN else DRIVING_LICENCE)
                     else UNKNOWN)"
      and "fst (snd (detect t)) = None" and "snd (snd (detect t)) = 0"
      by (simp_all add: Let_def)
    then show ?thesis
      by (simp add: classify_and_verify_eq final_score_eq fields_of_def)
  qed
  have e: "classify_and_verify settings [] =
       Inr \<lparr>status = REJECTED, detected_document_type = UNKNOWN, confidence_score = 0,
            failure_reason =
              Some ''Could not identify document type. No supported ID keywords or patterns found.'',
            extracted_fields = Map.empty, raw_ocr_text = Some []\<rparr>"
    by (simp add: classify_and_verify_eq empty_detect final_score_unknown round2_zero decide_def
        unknown_reason_def fields_of_def)
  from d r e empty_candidates empty_detect show ?thesis by blast
qed

lemma tie_candidates: "candidates ''date of birth'' = []"
  by code_simp

lemma tie_keywords:
  "found_keywords ''date of birth'' AADHAAR = 1 \<and> found_keywords ''date of birth'' PAN = 1
   \<and> found_keywords ''date of birth'' DRIVING_LICENCE = 0"
  by code_simp

theorem keyword_fallback_choice_witness:
  "candidates ''date of birth'' = []
   \<and> calculate_scoring ''date of birth'' AADHAAR = calculate_scoring ''date of birth'' PAN
   \<and> detect ''date of birth'' = (AADHAAR, None, 0)
   \<and> (\<exists>r. classify_and_verify settings ''date of birth'' = Inr r
          \<and> detected_document_type r = AADHAAR \<and> extracted_fields r = Map.empty
          \<and> confidence_score r = decimal 4 10)"
proof -
  have p: "(0::rat) < decimal 4 10" by (simp add: decimal_values)
  from keyword_fallback_choice [of "''date of birth''" settings] tie_candidates
  have "detect ''date of birth'' =
        (let a = calculate_scoring ''date of birth'' AADHAAR;
             p = calculate_scoring ''date of birth'' PAN;
             d = calculate_scoring ''date of birth'' DRIVING_LICENCE; m = max a (max p d)
         in if 0 < m
            then (if a = m then AADHAAR else if p = m then PAN else DRIVING_LICENCE, None, 0)
            else (UNKNOWN, None, 0))"
    and "\<exists>r. classify_and_verify settings ''date of birth'' = Inr r
             \<and> detected_document_type r =
                 (let a = calculate_scoring ''date of birth'' AADHAAR;
                      p = calculate_scoring ''date of birth'' PAN;
                      d = calculate_scoring ''date of birth'' DRIVING_LICENCE; m = max a (max p d)
                  in if 0 < m
                     then (if a = m then AADHAAR else if p = m then PAN else DRIVING_LICENCE)
                     else UNKNOWN)
             \<and> extracted_fields r = Map.empty
             \<and> confidence_score r = round2 (blend ''date of birth'' (detected_document_type r) 0)"
    by blast+
  with p have "detect ''date of birth'' = (AADHAAR, None, 0)"
    and "\<exists>r. classify_and_verify settings ''date of birth'' = Inr r
             \<and> detected_document_type r = AADHAAR
             \<and> extracted_fields r = Map.empty
             \<and> confidence_score r = round2 (blend ''date of birth'' (detected_document_type r) 0)"
    by (simp_all add: calculate_scoring_steps tie_keywords Let_def max_def)
  moreover have "round2 (blend ''date of birth'' AADHAAR 0) = decimal 4 10"
    by (simp add: blend_def calculate_scoring_steps tie_keywords blend_table round_table)
  ultimately show ?thesis
    using tie_candidates by (auto simp: calculate_scoring_steps tie_keywords)
qed

lemma both_candidates:
  "candidates ''income tax department ABCDE1234F 1234 5678 9012''
     = [(AADHAAR, Some ''1234 5678 9012'', 1), (PAN, Some ''ABCDE1234F'', 1)]"
  by code_simp

lemma both_keywords:
  "found_keywords ''income tax department ABCDE1234F 1234 5678 9012'' AADHAAR = 0
   \<and> found_keywords ''income tax department ABCDE1234F 1234 5678 9012'' PAN = 1"
  by code_simp

lemma both_totals:
  "total_score ''income tax department ABCDE1234F 1234 5678 9012''
     (AADHAAR, Some ''1234 5678 9012'', 1) = decimal 6 10"
  "total_score ''income tax department ABCDE1234F 1234 5678 9012''
     (PAN, Some ''ABCDE1234F'', 1) = decimal 76 100"
  by (simp_all add: total_score_def calculate_scoring_steps both_keywords score_arith)

lemma both_detect:
  "detect ''income tax department ABCDE1234F 1234 5678 9012'' = (PAN, Some ''ABCDE1234F'', 1)"
proof -
  have lt: "decimal 6 10 < decimal 76 100" by (simp add: decimal_values)
  have "select ''income tax department ABCDE1234F 1234 5678 9012'' = (PAN, Some ''ABCDE1234F'', 1)"
    by (simp add: select_def both_candidates scored_def both_totals lt)
  then show ?thesis
    using detect_fired(1) [of "''income tax department ABCDE1234F 1234 5678 9012''"]
    by (simp add: both_candidates)
qed

lemma candidates_order:
  "map fst (candidates t) \<in> set (subseqs [AADHAAR, PAN, DRIVING_LICENCE])"
  by (cases "validate_aadhaar t"; cases "validate_pan t"; cases "validate_dl t")
    (simp add: candidates_def Let_def)

lemma both_result:
  "classify_and_verify settings ''income tax department ABCDE1234F 1234 5678 9012''
     = Inr \<lparr>status = VERIFIED, detected_document_type = PAN, confidence_score = decimal 99 100,
            failure_reason = None, extracted_fields = [''id_number'' \<mapsto> ''ABCDE1234F''],
            raw_ocr_text = Some ''income tax department ABCDE1234F 1234 5678 9012''\<rparr>"
proof -
  have f: "final_score ''income tax department ABCDE1234F 1234 5678 9012'' = decimal 99 100"
    by (simp add: final_score_def both_detect blend_def calculate_scoring_steps both_keywords
        blend_table)
  have c: "decide settings PAN (decimal 99 100) = (VERIFIED, None)"
    by (simp add: decide_def settings_def decimal_values)
  show ?thesis
    by (simp add: classify_and_verify_eq both_detect f c round_table fields_of_def)
qed

text \<open>
  Claim C4. When two or more matchers fire, the engine adopts the candidate whose total
  \<open>base_confidence * 0.6 + keyword_score * 0.4\<close> is greatest: every candidate before it
  in the list has a strictly smaller total and every candidate after it a total that is
  not greater, so the first of equal totals wins. The list holds the candidates in the
  order Aadhaar, PAN, driving licence. The base confidence that enters the final score
  is the base score of the adopted candidate, not its total. The response of
  \<open>classify_and_verify\<close> carries the type of the adopted candidate, its identifier and
  that final score, rounded. On a text with a PAN, an Aadhaar number and one PAN keyword
  both matchers report 1.0 and the response is PAN with the PAN as identifier.
\<close>

theorem candidate_choice:
  "(2 \<le> length (candidates t) \<longrightarrow>
      (\<exists>pre post. candidates t = pre @ detect t # post
         \<and> (\<forall>z\<in>set pre. total_score t z < total_score t (detect t))
         \<and> (\<forall>z\<in>set post. total_score t z \<le> total_score t (detect t)))
      \<and> final_score t = blend_value (snd (snd (detect t))) (calculate_scoring t (fst (detect t)))
      \<and> (\<exists>r. classify_and_verify cfg t = Inr r
             \<and> detected_document_type r = fst (detect t)
             \<and> extracted_fields r = fields_of (fst (snd (detect t)))
             \<and> confidence_score r = round2 (final_score t)))
   \<and> map fst (candidates t) \<in> set (subseqs [AADHAAR, PAN, DRIVING_LICENCE])
   \<and> total_score t (doc_type, number, base_score)
       = fadd (fmul base_score (decimal 6 10)) (fmul (calculate_scoring t doc_type) (decimal 4 10))
   \<and> candidates ''income tax department ABCDE1234F 1234 5678 9012''
       = [(AADHAAR, Some ''1234 5678 9012'', 1), (PAN, Some ''ABCDE1234F'', 1)]
   \<and> found_keywords ''income tax department ABCDE1234F 1234 5678 9012'' AADHAAR = 0
   \<and> found_keywords ''income tax department ABCDE1234F 1234 5678 9012'' PAN = 1
   \<and> detect ''income tax department ABCDE1234F 1234 5678 9012'' = (PAN, Some ''ABCDE1234F'', 1)
   \<and> classify_and_verify settings ''income tax department ABCDE1234F 1234 5678 9012''
       = Inr \<lparr>status = VERIFIED, detected_document_type = PAN, confidence_score = decimal 99 100,
              failure_reason = None, extracted_fields = [''id_number'' \<mapsto> ''ABCDE1234F''],
              raw_ocr_text = Some ''income tax department ABCDE1234F 1234 5678 9012''\<rparr>"
proof -
  have a: "(\<exists>pre post. candidates t = pre @ detect t # post
         \<and> (\<forall>z\<in>set pre. total_score t z < total_score t (detect t))
         \<and> (\<forall>z\<in>set post. total_score t z \<le> total_score t (detect t)))
      \<and> final_score t = blend_value (snd (snd (detect t))) (calculate_scoring t (fst (detect t)))"
    if h: "2 \<le> length (candidates t)"
  proof -
    from h obtain c c' cs where cs: "candidates t = c # c' # cs"
      by (cases "candidates t"; cases "tl (candidates t)") auto
    then have ne: "candidates t \<noteq> []" by simp
    from detect_fired [OF ne] candidates_member [of "detect t" t]
    have d: "detect t = select t" and u: "fst (detect t) \<noteq> UNKNOWN" by auto
    from select_split [OF cs] final_score_detected [OF u] show ?thesis
      unfolding d by blast
  qed
  have r: "\<exists>r. classify_and_verify cfg t = Inr r
             \<and> detected_document_type r = fst (detect t)
             \<and> extracted_fields r = fields_of (fst (snd (detect t)))
             \<and> confidence_score r = round2 (final_score t)"
    by (simp add: classify_and_verify_eq)
  have b: "total_score t (doc_type, number, base_score)
       = fadd (fmul base_score (decimal 6 10)) (fmul (calculate_scoring t doc_type) (decimal 4 10))"
    by (simp add: total_score_def)
  from a r b candidates_order [of t] both_candidates both_keywords both_detect both_result
  show ?thesis by blast
qed

theorem candidate_choice_witness:
  "2 \<le> length (candidates ''income tax department ABCDE1234F 1234 5678 9012'')
   \<and> (\<exists>pre post. candidates ''income tax department ABCDE1234F 1234 5678 9012''
           = pre @ (PAN, Some ''ABCDE1234F'', 1) # post
         \<and> (\<forall>z\<in>set pre. total_score ''income tax department ABCDE1234F 1234 5678 9012'' z
               < decimal 76 100))
   \<and> final_score ''income tax department ABCDE1234F 1234 5678 9012'' = decimal 99 100
   \<and> (\<exists>r. classify_and_verify settings ''income tax department ABCDE1234F 1234 5678 9012''
            = Inr r
          \<and> detected_document_type r = PAN
          \<and> extracted_fields r = [''id_number'' \<mapsto> ''ABCDE1234F'']
          \<and> confidence_score r = decimal 99 100)"
proof -
  have h: "2 \<le> length (candidates ''income tax department ABCDE1234F 1234 5678 9012'')"
    by (simp add: both_candidates)
  from candidate_choice [of "''income tax department ABCDE1234F 1234 5678 9012''" settings] h
  have "\<exists>pre post. candidates ''income tax department ABCDE1234F 1234 5678 9012''
           = pre @ detect ''income tax department ABCDE1234F 1234 5678 9012'' # post
         \<and> (\<forall>z\<in>set pre. total_score ''income tax department ABCDE1234F 1234 5678 9012'' z
               < total_score ''income tax department ABCDE1234F 1234 5678 9012''
                   (detect ''income tax department ABCDE1234F 1234 5678 9012''))"
    and "final_score ''income tax department ABCDE1234F 1234 5678 9012''
         = blend_value (snd (snd (detect ''income tax department ABCDE1234F 1234 5678 9012'')))
             (calculate_scoring ''income tax department ABCDE1234F 1234 5678 9012''
                (fst (detect ''income tax department ABCDE1234F 1234 5678 9012'')))"
    and "\<exists>r. classify_and_verify settings ''income tax department ABCDE1234F 1234 5678 9012''
            = Inr r
          \<and> detected_document_type r
              = fst (detect ''income tax department ABCDE1234F 1234 5678 9012'')
          \<and> extracted_fields r
              = fields_of (fst (snd (detect ''income tax department ABCDE1234F 1234 5678 9012'')))
          \<and> confidence_score r
              = round2 (final_score ''income tax department ABCDE1234F 1234 5678 9012'')"
    by blast+
  then have "\<exists>pre post. candidates ''income tax department ABCDE1234F 1234 5678 9012''
           = pre @ (PAN, Some ''ABCDE1234F'', 1) # post
         \<and> (\<forall>z\<in>set pre. total_score ''income tax department ABCDE1234F 1234 5678 9012'' z
               < decimal 76 100)"
    and f: "final_score ''income tax department ABCDE1234F 1234 5678 9012'' = decimal 99 100"
    and "\<exists>r. classify_and_verify settings ''income tax department ABCDE1234F 1234 5678 9012''
            = Inr r
          \<and> detected_document_type r = PAN
          \<and> extracted_fields r = fields_of (Some ''ABCDE1234F'')
          \<and> confidence_score r
              = round2 (final_score ''income tax department ABCDE1234F 1234 5678 9012'')"
    by (simp_all add: both_detect both_totals calculate_scoring_steps both_keywords blend_table)
  with h show ?thesis by (simp add: round_table fields_of_def)
qed

text \<open>A rounding effect in the choice: without rounding the keyword-only licence candidate
  and the Aadhaar candidate below would tie at 0.6 and Aadhaar, the first, would win.\<close>

lemma tie_text_candidates:
  "candidates ''regional transport motor driving 1234 5678 9012''
     = [(AADHAAR, Some ''1234 5678 9012'', 1), (DRIVING_LICENCE, None, decimal 6 10)]"
  by code_simp

lemma tie_text_keywords:
  "found_keywords ''regional transport motor driving 1234 5678 9012'' AADHAAR = 0
   \<and> found_keywords ''regional transport motor driving 1234 5678 9012'' DRIVING_LICENCE = 4"
  by code_simp

lemma rounding_decides_choice:
  "total_score ''regional transport motor driving 1234 5678 9012''
     (AADHAAR, Some ''1234 5678 9012'', 1) = decimal 6 10
   \<and> total_score ''regional transport motor driving 1234 5678 9012''
     (DRIVING_LICENCE, None, decimal 6 10) = decimal 6000000000000001 10000000000000000
   \<and> detect ''regional transport motor driving 1234 5678 9012''
     = (DRIVING_LICENCE, None, decimal 6 10)"
proof -
  have t: "total_score ''regional transport motor driving 1234 5678 9012''
     (AADHAAR, Some ''1234 5678 9012'', 1) = decimal 6 10"
    "total_score ''regional transport motor driving 1234 5678 9012''
     (DRIVING_LICENCE, None, decimal 6 10) = decimal 6000000000000001 10000000000000000"
    by (simp_all add: total_score_def calculate_scoring_steps tie_text_keywords score_arith)
  have lt: "decimal 6 10 < decimal 6000000000000001 10000000000000000"
    by (simp add: decimal_values)
  have "select ''regional transport motor driving 1234 5678 9012''
        = (DRIVING_LICENCE, None, decimal 6 10)"
    by (simp add: select_def tie_text_candidates scored_def t lt)
  then have "detect ''regional transport motor driving 1234 5678 9012''
        = (DRIVING_LICENCE, None, decimal 6 10)"
    using detect_fired(1) [of "''regional transport motor driving 1234 5678 9012''"]
    by (simp add: tie_text_candidates)
  with t show ?thesis by simp
qed

lemma calculate_scoring_svc_steps:
  "calculate_scoring_svc t d =
     (if found_keywords_svc t d = 0 then 0
      else if found_keywords_svc t d = 1 then decimal 4 10
      else decimal 6000000000000001 10000000000000000)"
  by (simp add: calculate_scoring_svc_def Let_def kw_one kw_two)

lemma licence_words_candidates:
  "candidates ''Regional Transport Motor Driving'' = [(DRIVING_LICENCE, None, decimal 6 10)]"
  by code_simp

lemma licence_words_keywords:
  "found_keywords ''Regional Transport Motor Driving'' DRIVING_LICENCE = 4"
  by code_simp

lemma licence_words_svc:
  "detect_svc ''Regional Transport Motor Driving'' = (UNKNOWN, None, 0)"
  by code_simp

lemma both_svc:
  "detect_svc ''income tax department ABCDE1234F 1234 5678 9012''
     = (AADHAAR, Some ''1234 5678 9012'', 1)
   \<and> found_keywords_svc ''income tax department ABCDE1234F 1234 5678 9012'' AADHAAR = 0"
  by code_simp

text \<open>
  Claim C9. The two copies of the engine differ on some texts. On a text of licence words
  without a number the first copy reports a verified driving licence and the second an
  unknown document, whatever the thresholds. On a text with an Aadhaar number, a PAN
  and a PAN keyword the first copy, which compares all candidates, reports PAN and the
  second, which stops at the first matcher that fires, Aadhaar.
\<close>

theorem engines_diverge:
  "classify_and_verify settings ''Regional Transport Motor Driving''
     = Inr \<lparr>status = VERIFIED, detected_document_type = DRIVING_LICENCE,
            confidence_score = decimal 96 100, failure_reason = None,
            extracted_fields = Map.empty,
            raw_ocr_text = Some ''Regional Transport Motor Driving''\<rparr>
   \<and> classify_and_verify_svc cfg ''Regional Transport Motor Driving''
     = Inr \<lparr>status = REJECTED, detected_document_type = UNKNOWN, confidence_score = 0,
            failure_reason =
              Some ''Could not identify document type. No supported ID keywords or patterns found.'',
            extracted_fields = Map.empty,
            raw_ocr_text = Some ''Regional Transport Motor Driving''\<rparr>
   \<and> classify_and_verify settings ''income tax department ABCDE1234F 1234 5678 9012''
     = Inr \<lparr>status = VERIFIED, detected_document_type = PAN, confidence_score = decimal 99 100,
            failure_reason = None, extracted_fields = [''id_number'' \<mapsto> ''ABCDE1234F''],
            raw_ocr_text = Some ''income tax department ABCDE1234F 1234 5678 9012''\<rparr>
   \<and> classify_and_verify_svc settings ''income tax department ABCDE1234F 1234 5678 9012''
     = Inr \<lparr>status = VERIFIED, detected_document_type = AADHAAR, confidence_score = decimal 6 10,
            failure_reason = None, extracted_fields = [''id_number'' \<mapsto> ''1234 5678 9012''],
            raw_ocr_text = Some ''income tax department ABCDE1234F 1234 5678 9012''\<rparr>
   \<and> classify_and_verify cfg' ''Regional Transport Motor Driving''
       \<noteq> classify_and_verify_svc cfg ''Regional Transport Motor Driving''"
proof -
  let ?w = "''Regional Transport Motor Driving''"
  let ?b = "''income tax department ABCDE1234F 1234 5678 9012''"
  have dw: "detect ?w = (DRIVING_LICENCE, None, decimal 6 10)"
    using detect_fired(1) [of ?w] by (simp add: licence_words_candidates select_def)
  have fw: "final_score ?w = decimal 9600000000000001 10000000000000000"
    by (simp add: final_score_def dw blend_def calculate_scoring_steps licence_words_keywords
        blend_table)
  have rw: "round2 (final_score ?w) = decimal 96 100"
    by (simp add: fw round_table)
  have cw: "decide settings DRIVING_LICENCE (final_score ?w) = (VERIFIED, None)"
    by (simp add: decide_def fw settings_def decimal_values)
  have 1: "classify_and_verify settings ?w
     = Inr \<lparr>status = VERIFIED, detected_document_type = DRIVING_LICENCE,
            confidence_score = decimal 96 100, failure_reason = None,
            extracted_fields = Map.empty, raw_ocr_text = Some ?w\<rparr>"
    by (simp add: classify_and_verify_eq dw rw cw fields_of_def)
  have 2: "classify_and_verify_svc cfg ?w
     = Inr \<lparr>status = REJECTED, detected_document_type = UNKNOWN, confidence_score = 0,
            failure_reason =
              Some ''Could not identify document type. No supported ID keywords or patterns found.'',
            extracted_fields = Map.empty, raw_ocr_text = Some ?w\<rparr>"
    by (simp add: classify_and_verify_svc_def licence_words_svc blend_svc_def round2_zero
        decide_def unknown_reason_def new_response_def fields_of_def)
  have fb: "final_score ?b = decimal 99 100"
    by (simp add: final_score_def both_detect blend_def calculate_scoring_steps both_keywords
        blend_table)
  have cb: "decide settings PAN (decimal 99 100) = (VERIFIED, None)"
    by (simp add: decide_def settings_def decimal_values)
  have 3: "classify_and_verify settings ?b
     = Inr \<lparr>status = VERIFIED, detected_document_type = PAN, confidence_score = decimal 99 100,
            failure_reason = None, extracted_fields = [''id_number'' \<mapsto> ''ABCDE1234F''],
            raw_ocr_text = Some ?b\<rparr>"
    by (simp add: classify_and_verify_eq both_detect fb cb round_table fields_of_def)
  have sb: "blend_svc ?b AADHAAR 1 = decimal 6 10"
    by (simp add: blend_svc_def calculate_scoring_svc_steps both_svc blend_table)
  have cs: "decide settings AADHAAR (decimal 6 10) = (VERIFIED, None)"
    by (simp add: decide_def settings_def decimal_values)
  have rg: "(0::rat) \<le> decimal 6 10 \<and> decimal 6 10 \<le> 1"
    by (simp add: decimal_values)
  have 4: "classify_and_verify_svc settings ?b
     = Inr \<lparr>status = VERIFIED, detected_document_type = AADHAAR, confidence_score = decimal 6 10,
            failure_reason = None, extracted_fields = [''id_number'' \<mapsto> ''1234 5678 9012''],
            raw_ocr_text = Some ?b\<rparr>"
    using rg by (simp add: classify_and_verify_svc_def both_svc sb cs round_table new_response_def
        fields_of_def)
  have 5: "classify_and_verify cfg' ?w \<noteq> classify_and_verify_svc cfg ?w"
    unfolding 2 by (simp add: classify_and_verify_eq dw)
  from 1 2 3 4 5 show ?thesis by blast
qed

section \<open>The Aadhaar matcher\<close>

text \<open>
  Claim C5. A text with one 12-digit sequence grouped as \<open>DDDD DDDD DDDD\<close> is matched, the
  identifier being the matched text with its spaces and the base confidence 1.0; a run of
  12 digits with no space must not match. The matcher accepts the unspaced run: the
  pattern makes each space optional. On the two texts of the repository's own test
  \<open>test_validate_aadhaar\<close> the spaced number is returned as the test expects, and the
  unspaced one, which the test expects to be refused, is returned as well.
\<close>

theorem validate_aadhaar_unspaced:
  "validate_aadhaar ''My Aadhaar is 1234 5678 9012'' = (True, Some ''1234 5678 9012'', 1)
   \<and> validate_aadhaar ''My Aadhaar is 123456789012'' = (True, Some ''123456789012'', 1)
   \<and> validate_aadhaar ''My Aadhaar is 1234-5678-9012'' = (False, None, 0)"
  by code_simp

end
